theory Spec2Isabelle
  imports Main "HOL-Library.Sublist"
begin

section \<open>Python values, exceptions and strings\<close>

text \<open>
  The program is one Python module, \<^verbatim>\<open>weather_agent_cli.py\<close>. Its values are
  dynamically typed, so the model has one type of Python values: the values that
  \<^verbatim>\<open>json.loads\<close> and the service client hand to the program, and the strings and lists the
  program builds itself. A dict is kept as the list of its items (the keys of every dict the
  program reads are strings); a float is kept as its literal, since the program never
  computes with one.

  A Python \<^verbatim>\<open>str\<close> is a \<^typ>\<open>string\<close>: the characters are the code points 0 to 255.
  The behaviour of \<^verbatim>\<open>str.strip\<close>, \<^verbatim>\<open>str.lower\<close> and of the error messages is
  that of CPython 3.11.
\<close>

datatype pyval =
    PNone
  | PBool bool
  | PInt int
  | PFloat string
  | PStr string
  | PList "pyval list"
  | PDict "(string \<times> pyval) list"

text \<open>
  An exception is its class and the text \<^verbatim>\<open>str(e)\<close>. Only instances of
  \<^verbatim>\<open>Exception\<close> are modelled (a \<^verbatim>\<open>KeyboardInterrupt\<close> is not), so that
  \<^verbatim>\<open>except Exception\<close> catches every value of this type. \<open>OtherException\<close> stands for
  every class that no handler of the program names.
\<close>

datatype exc_class =
    JSONDecodeError
  | KeyError
  | IndexError
  | TypeError
  | AttributeError
  | TimeoutExpired
  | EOFError
  | OtherException

datatype exn = Exn (exn_class: exc_class) (exn_str: string)

definition and_then :: "exn + 'a \<Rightarrow> ('a \<Rightarrow> exn + 'b) \<Rightarrow> exn + 'b" where
  "and_then r f = (case r of Inl e \<Rightarrow> Inl e | Inr v \<Rightarrow> f v)"

definition NL :: char where
  "NL = CHR 0x0A"

definition APOS :: char where
  "APOS = CHR 0x27"

text \<open>\<^verbatim>\<open>str.isspace\<close> on the code points below 256, which is what \<^verbatim>\<open>strip()\<close> removes.\<close>

definition isspace :: "char \<Rightarrow> bool" where
  "isspace c = ((of_char c :: nat) \<in> set [9, 10, 11, 12, 13, 28, 29, 30, 31, 32, 133, 160])"

definition strip :: "string \<Rightarrow> string" where
  "strip s = rev (dropWhile isspace (rev (dropWhile isspace s)))"

text \<open>\<^verbatim>\<open>str.lower\<close>: the upper-case letters below 256 are A to Z and 0xC0 to 0xDE without 0xD7.\<close>

definition lower_char :: "char \<Rightarrow> char" where
  "lower_char c =
     (let n = (of_char c :: nat)
      in if (65 \<le> n \<and> n \<le> 90) \<or> (192 \<le> n \<and> n \<le> 222 \<and> n \<noteq> 215)
         then char_of (n + 32) else c)"

definition lower :: "string \<Rightarrow> string" where
  "lower s = map lower_char s"

text \<open>The decimal text of a length, as an f-string prints \<^verbatim>\<open>len(...)\<close>.\<close>

fun str_nat :: "nat \<Rightarrow> string" where
  "str_nat n =
     (if n < 10 then [char_of (48 + n)]
      else str_nat (n div 10) @ [char_of (48 + n mod 10)])"

declare str_nat.simps [simp del]

fun type_name :: "pyval \<Rightarrow> string" where
  "type_name PNone = ''NoneType''"
| "type_name (PBool _) = ''bool''"
| "type_name (PInt _) = ''int''"
| "type_name (PFloat _) = ''float''"
| "type_name (PStr _) = ''str''"
| "type_name (PList _) = ''list''"
| "type_name (PDict _) = ''dict''"

definition not_subscriptable :: "pyval \<Rightarrow> exn" where
  "not_subscriptable v = Exn TypeError ([APOS] @ type_name v @ [APOS] @ '' object is not subscriptable'')"

text \<open>
  \<^verbatim>\<open>obj[key]\<close> for a string key. A missing key of a dict raises \<^verbatim>\<open>KeyError(key)\<close>,
  whose text is \<^verbatim>\<open>repr(key)\<close>: the key between apostrophes, for the keys the program
  uses. Every other type of object raises \<^verbatim>\<open>TypeError\<close>.
\<close>

fun getitem_str :: "pyval \<Rightarrow> string \<Rightarrow> exn + pyval" where
  "getitem_str (PDict items) key =
     (case map_of items key of
        Some v \<Rightarrow> Inr v
      | None \<Rightarrow> Inl (Exn KeyError ([APOS] @ key @ [APOS])))"
| "getitem_str (PList xs) key = Inl (Exn TypeError ''list indices must be integers or slices, not str'')"
| "getitem_str (PStr s) key = Inl (Exn TypeError (''string indices must be integers, not '' @ [APOS] @ ''str'' @ [APOS]))"
| "getitem_str v key = Inl (not_subscriptable v)"

text \<open>\<^verbatim>\<open>obj[i]\<close> for an index \<open>i \<ge> 0\<close> (the program only writes \<^verbatim>\<open>[0]\<close>).\<close>

fun getitem_idx :: "pyval \<Rightarrow> nat \<Rightarrow> exn + pyval" where
  "getitem_idx (PList xs) i =
     (if i < length xs then Inr (xs ! i) else Inl (Exn IndexError ''list index out of range''))"
| "getitem_idx (PStr s) i =
     (if i < length s then Inr (PStr [s ! i]) else Inl (Exn IndexError ''string index out of range''))"
| "getitem_idx (PDict items) i = Inl (Exn KeyError (str_nat i))"
| "getitem_idx v i = Inl (not_subscriptable v)"

text \<open>\<^verbatim>\<open>obj[:60]\<close>.\<close>

fun slice60 :: "pyval \<Rightarrow> exn + pyval" where
  "slice60 (PStr s) = Inr (PStr (take 60 s))"
| "slice60 (PList xs) = Inr (PList (take 60 xs))"
| "slice60 (PDict items) = Inl (Exn TypeError (''unhashable type: '' @ [APOS] @ ''slice'' @ [APOS]))"
| "slice60 v = Inl (not_subscriptable v)"

text \<open>\<^verbatim>\<open>len(obj)\<close>.\<close>

fun len :: "pyval \<Rightarrow> exn + nat" where
  "len (PStr s) = Inr (length s)"
| "len (PList xs) = Inr (length xs)"
| "len (PDict items) = Inr (length items)"
| "len v = Inl (Exn TypeError (''object of type '' @ [APOS] @ type_name v @ [APOS] @ '' has no len()''))"

section \<open>The world outside the program\<close>

text \<open>
  The program talks to a terminal, to the hosted model through \<^verbatim>\<open>boto3\<close>, and to the
  weather service through a \<^verbatim>\<open>curl\<close> child process. Every such effect is an event of a
  trace, which the functions below take and return extended. What the world answers is
  given by an environment: each answer may depend on the request and on the whole trace
  so far, so that the same request can be answered differently at different times.
\<close>

datatype event =
    Print string
  | Input string
  | Boto3Client
  | Converse string
  | SubprocessRun pyval

text \<open>
  \<open>Print s\<close> is \<^verbatim>\<open>print(s)\<close>; \<open>Input p\<close> is \<^verbatim>\<open>input(p)\<close>; \<open>Boto3Client\<close> is the
  call \<^verbatim>\<open>boto3.client(...)\<close>, whether it returns or raises; \<open>Converse p\<close> is the call
  \<^verbatim>\<open>bedrock.converse(...)\<close> with the prompt \<open>p\<close>; \<open>SubprocessRun url\<close> is the call
  \<^verbatim>\<open>subprocess.run(['curl', '-s', url], ...)\<close>.
\<close>

record completed_process =
  returncode :: int
  stdout :: string
  stderr :: string

text \<open>
  \<^item> \<open>boto3_client\<close>: \<^verbatim>\<open>boto3.client(...)\<close>, \<open>Some e\<close> when it raises \<open>e\<close>;
  \<^item> \<open>bedrock_converse\<close>: \<^verbatim>\<open>bedrock.converse(...)\<close> for a prompt, the response or the
    exception raised;
  \<^item> \<open>subprocess_run\<close>: \<^verbatim>\<open>subprocess.run\<close> of \<^verbatim>\<open>curl -s url\<close> with the 30 second
    timeout, the completed process or the exception raised
    (\<open>TimeoutExpired\<close> when the timeout elapses);
  \<^item> \<open>json_loads\<close>: \<^verbatim>\<open>json.loads\<close> of a string, the decoded value or the exception
    raised (\<open>JSONDecodeError\<close> when the string is not a valid JSON document);
  \<^item> \<open>str_of\<close>: \<^verbatim>\<open>str(v)\<close> for a value that is not a string.
\<close>

record env =
  boto3_client :: "event list \<Rightarrow> exn option"
  bedrock_converse :: "event list \<Rightarrow> string \<Rightarrow> exn + pyval"
  subprocess_run :: "event list \<Rightarrow> pyval \<Rightarrow> exn + completed_process"
  json_loads :: "string \<Rightarrow> exn + pyval"
  str_of :: "pyval \<Rightarrow> string"

text \<open>A value inside an f-string: \<^verbatim>\<open>f"{v}"\<close>.\<close>

fun fmt :: "env \<Rightarrow> pyval \<Rightarrow> string" where
  "fmt env (PStr s) = s"
| "fmt env v = str_of env v"

definition unlines :: "string list \<Rightarrow> string" where
  "unlines ls = concat (map (\<lambda>l. l @ [NL]) ls)"

section \<open>The components\<close>

subsection \<open>Text generation client\<close>

text \<open>\<^verbatim>\<open>response['output']['message']['content'][0]['text']\<close>\<close>

definition response_text :: "pyval \<Rightarrow> exn + pyval" where
  "response_text response =
     and_then (getitem_str response ''output'') (\<lambda>output.
     and_then (getitem_str output ''message'') (\<lambda>message.
     and_then (getitem_str message ''content'') (\<lambda>content.
     and_then (getitem_idx content 0) (\<lambda>first.
     getitem_str first ''text''))))"

text \<open>
  The client is built before the \<^verbatim>\<open>try\<close>; the call and the reading of the response are
  inside it, under \<^verbatim>\<open>except Exception\<close>.
\<close>

definition call_claude_sonnet :: "env \<Rightarrow> event list \<Rightarrow> string \<Rightarrow> event list \<times> (exn + bool \<times> pyval)" where
  "call_claude_sonnet env tr prompt =
     (let tr1 = tr @ [Boto3Client]
      in case boto3_client env tr of
           Some e \<Rightarrow> (tr1, Inl e)
         | None \<Rightarrow>
             (let tr2 = tr1 @ [Converse prompt]
              in case and_then (bedrock_converse env tr1 prompt) response_text of
                   Inr text \<Rightarrow> (tr2, Inr (True, text))
                 | Inl e \<Rightarrow> (tr2, Inr (False, PStr (''Error calling Claude: '' @ exn_str e)))))"

subsection \<open>Command execution wrapper\<close>

definition execute_curl_command :: "env \<Rightarrow> event list \<Rightarrow> pyval \<Rightarrow> event list \<times> bool \<times> pyval" where
  "execute_curl_command env tr url =
     (let tr1 = tr @ [SubprocessRun url]
      in case subprocess_run env tr url of
           Inr result \<Rightarrow>
             if returncode result = 0 then (tr1, True, PStr (stdout result))
             else (tr1, False, PStr (''Curl command failed: '' @ stderr result))
         | Inl e \<Rightarrow>
             if exn_class e = TimeoutExpired then (tr1, False, PStr ''Request timed out after 30 seconds'')
             else (tr1, False, PStr (''Error executing curl: '' @ exn_str e)))"

subsection \<open>Coordinate and URL planner\<close>

definition planner_prompt :: "string \<Rightarrow> string" where
  \<open>planner_prompt location = NL # unlines
     [''You are an expert at working with the National Weather Service (NWS) API.'',
      '''',
      ''Your task: Generate the NWS API URL to get weather forecast data for "'' @ location @ ''".'',
      '''',
      ''Instructions:'',
      ''1. First, determine the approximate latitude and longitude coordinates for this location'',
      ''2. Generate the NWS Points API URL: https://api.weather.gov/points/{lat},{lon}'',
      '''',
      ''For the coordinates, use your knowledge to estimate:'',
      ''- Major cities: Use well-known coordinates'',
      ''- ZIP codes: Estimate based on the area'',
      ''- States: Use approximate center coordinates'',
      ''- In case a location description is provided instead of a location name, please use the most likely city and state name as the location for the coordinates'',
      '''',
      ''Example for Seattle:'',
      ''https://api.weather.gov/points/47.6062,-122.3321'',
      '''',
      ''Example for largest city in USA:'',
      ''Based on your knowledge, you will establish location is New York City'',
      ''https://api.weather.gov/points/40.7128,-74.0060'',
      '''',
      ''Now generate the API call (Points API) for the established location. '',
      ''Return ONLY the complete Points API URL, nothing else.'',
      ''Format: https://api.weather.gov/points/LAT,LON'']\<close>

definition points_prefix :: string where
  "points_prefix = ''https://api.weather.gov/points/''"

text \<open>
  \<^verbatim>\<open>response.strip()\<close> on a value that is not a string raises \<^verbatim>\<open>AttributeError\<close>,
  which nothing catches.
\<close>

definition generate_weather_api_calls :: "env \<Rightarrow> event list \<Rightarrow> string \<Rightarrow> event list \<times> (exn + bool \<times> pyval)" where
  "generate_weather_api_calls env tr location =
     (let tr0 = tr @ [Print (''AI is analyzing '' @ [APOS] @ location @ [APOS] @ '' and generating weather API calls...'')]
      in case call_claude_sonnet env tr0 (planner_prompt location) of
           (tr1, Inl e) \<Rightarrow> (tr1, Inl e)
         | (tr1, Inr (success, response)) \<Rightarrow>
             if success then
               (case response of
                  PStr r \<Rightarrow>
                    (let api_url = strip r
                     in if prefix points_prefix api_url then (tr1, Inr (True, PList [PStr api_url]))
                        else (tr1, Inr (False, PStr (''AI generated invalid URL: '' @ api_url))))
                | _ \<Rightarrow> (tr1, Inl (Exn AttributeError
                         ([APOS] @ type_name response @ [APOS] @ '' object has no attribute '' @ [APOS] @ ''strip'' @ [APOS]))))
             else (tr1, Inr (False, response)))"

subsection \<open>Response parser\<close>

text \<open>
  The handler is \<^verbatim>\<open>except (json.JSONDecodeError, KeyError)\<close>: an exception of another
  class leaves the function. \<^verbatim>\<open>json.loads\<close> of a value that is not a string raises
  \<^verbatim>\<open>TypeError\<close>.
\<close>

definition get_forecast_url_from_points_response :: "env \<Rightarrow> pyval \<Rightarrow> exn + bool \<times> pyval" where
  "get_forecast_url_from_points_response env points_json =
     (let loaded =
        (case points_json of
           PStr s \<Rightarrow> json_loads env s
         | _ \<Rightarrow> Inl (Exn TypeError (''the JSON object must be str, bytes or bytearray, not '' @ type_name points_json)))
      in case and_then loaded (\<lambda>data.
              and_then (getitem_str data ''properties'') (\<lambda>properties.
              getitem_str properties ''forecast'')) of
           Inr forecast_url \<Rightarrow> Inr (True, forecast_url)
         | Inl e \<Rightarrow>
             if exn_class e = JSONDecodeError \<or> exn_class e = KeyError
             then Inr (False, PStr (''Error parsing Points API response: '' @ exn_str e))
             else Inl e)"

subsection \<open>Summary generator\<close>

definition summary_prompt :: "string \<Rightarrow> string \<Rightarrow> string" where
  \<open>summary_prompt raw_json location = NL # unlines
     [''You are a weather information specialist. I have raw National Weather Service forecast data for "'' @ location @ ''" that needs to be converted into a clear, helpful summary for a general audience.'',
      '''',
      ''Raw NWS API Response:'',
      raw_json,
      '''',
      ''Please create a weather summary that includes:'',
      ''1. A brief introduction with the location'',
      ''2. Current conditions and today's forecast'',
      ''3. The next 2-3 days outlook with key details (temperature, precipitation, wind)'',
      ''4. Any notable weather patterns or alerts'',
      ''5. Format the response to be easy to read and understand'',
      '''',
      ''Make it informative and practical for someone planning their activities. Focus on being helpful and clear.'']\<close>

definition process_weather_response :: "env \<Rightarrow> event list \<Rightarrow> pyval \<Rightarrow> string \<Rightarrow> event list \<times> (exn + bool \<times> pyval)" where
  "process_weather_response env tr raw_json location =
     (let tr0 = tr @ [Print ''AI is processing weather data and creating summary...'']
      in call_claude_sonnet env tr0 (summary_prompt (fmt env raw_json) location))"

section \<open>The orchestrator\<close>

text \<open>
  One pass through the body of the \<^verbatim>\<open>while True\<close> loop ends in \<^verbatim>\<open>continue\<close> (or
  the end of the body), in \<^verbatim>\<open>break\<close>, or in an exception that nothing catches.
  The body is cut at its \<^verbatim>\<open>print("Step k ...")\<close> lines: \<open>step1\<close> to \<open>step6\<close> are the body from
  their line to the end of the pass.
\<close>

datatype control = Continue | Break | Uncaught exn

definition step6 :: "env \<Rightarrow> event list \<Rightarrow> string \<Rightarrow> pyval \<Rightarrow> event list \<times> control" where
  "step6 env tr location summary =
     (tr @ [Print (NL # ''Step 6: Weather Forecast''),
            Print (replicate 60 (CHR ''='')),
            Print (fmt env summary),
            Print (replicate 60 (CHR ''='')),
            Print (NL # ''[SUCCESS] Weather analysis complete for '' @ [APOS] @ location @ [APOS] @ ''!'')],
      Continue)"

definition step5 :: "env \<Rightarrow> event list \<Rightarrow> string \<Rightarrow> pyval \<Rightarrow> event list \<times> control" where
  "step5 env tr location forecast_response =
     (let tr0 = tr @ [Print (NL # ''Step 5: AI Analysis Phase'')]
      in case process_weather_response env tr0 forecast_response location of
           (tr1, Inl e) \<Rightarrow> (tr1, Uncaught e)
         | (tr1, Inr (success, summary)) \<Rightarrow>
             if \<not> success
             then (tr1 @ [Print (''[ERROR] Failed to process data: '' @ fmt env summary)], Continue)
             else step6 env tr1 location summary)"

definition step4 :: "env \<Rightarrow> event list \<Rightarrow> string \<Rightarrow> pyval \<Rightarrow> event list \<times> control" where
  "step4 env tr location forecast_url =
     (let tr0 = tr @ [Print (NL # ''Step 4: Forecast API Execution''),
                      Print ''Fetching weather forecast data...'']
      in case execute_curl_command env tr0 forecast_url of
           (tr1, success, forecast_response) \<Rightarrow>
             if \<not> success
             then (tr1 @ [Print (''[ERROR] Failed to fetch forecast data: '' @ fmt env forecast_response)], Continue)
             else (case len forecast_response of
                     Inl e \<Rightarrow> (tr1, Uncaught e)
                   | Inr n \<Rightarrow>
                       step5 env
                         (tr1 @ [Print (''[SUCCESS] Received '' @ str_nat n @ '' characters of forecast data'')])
                         location forecast_response))"

definition step3 :: "env \<Rightarrow> event list \<Rightarrow> string \<Rightarrow> pyval \<Rightarrow> event list \<times> control" where
  "step3 env tr location points_response =
     (let tr0 = tr @ [Print (NL # ''Step 3: Extracting Forecast URL'')]
      in case get_forecast_url_from_points_response env points_response of
           Inl e \<Rightarrow> (tr0, Uncaught e)
         | Inr (success, forecast_url) \<Rightarrow>
             if \<not> success
             then (tr0 @ [Print (''[ERROR] Failed to extract forecast URL: '' @ fmt env forecast_url)], Continue)
             else (case slice60 forecast_url of
                     Inl e \<Rightarrow> (tr0, Uncaught e)
                   | Inr shown \<Rightarrow>
                       step4 env
                         (tr0 @ [Print (''[SUCCESS] Forecast URL: '' @ fmt env shown @ ''...'')])
                         location forecast_url))"

definition step2 :: "env \<Rightarrow> event list \<Rightarrow> string \<Rightarrow> pyval \<Rightarrow> event list \<times> control" where
  "step2 env tr location points_url =
     (let tr0 = tr @ [Print (NL # ''Step 2: Points API Execution''),
                      Print ''Fetching location data from National Weather Service...'']
      in case execute_curl_command env tr0 points_url of
           (tr1, success, points_response) \<Rightarrow>
             if \<not> success
             then (tr1 @ [Print (''[ERROR] Failed to fetch points data: '' @ fmt env points_response)], Continue)
             else step3 env (tr1 @ [Print ''[SUCCESS] Received points data'']) location points_response)"

definition step1 :: "env \<Rightarrow> event list \<Rightarrow> string \<Rightarrow> event list \<times> control" where
  "step1 env tr location =
     (let tr0 = tr @ [Print ''Step 1: AI Planning Phase'']
      in case generate_weather_api_calls env tr0 location of
           (tr1, Inl e) \<Rightarrow> (tr1, Uncaught e)
         | (tr1, Inr (success, api_calls)) \<Rightarrow>
             if \<not> success
             then (tr1 @ [Print (''[ERROR] Failed to generate API calls: '' @ fmt env api_calls)], Continue)
             else (case getitem_idx api_calls 0 of
                     Inl e \<Rightarrow> (tr1, Uncaught e)
                   | Inr points_url \<Rightarrow>
                       step2 env
                         (tr1 @ [Print (''[SUCCESS] Generated Points API URL: '' @ fmt env points_url)])
                         location points_url))"

text \<open>The body of the loop, for the line that \<^verbatim>\<open>input()\<close> has returned.\<close>

definition iteration :: "env \<Rightarrow> event list \<Rightarrow> string \<Rightarrow> event list \<times> control" where
  "iteration env tr line =
     (let location = strip line
      in if lower location \<in> set [''quit'', ''exit'', ''q'']
         then (tr @ [Print ''Thanks for using the Weather Agent!''], Break)
         else if location = []
         then (tr @ [Print ''[ERROR] Please enter a location name or description.''], Continue)
         else step1 env
                (tr @ [Print (NL # ''Starting weather analysis for '' @ [APOS] @ location @ [APOS] @ ''...''),
                       Print (replicate 40 (CHR ''-''))])
                location)"

definition input_prompt :: string where
  "input_prompt = NL # ''Enter a location name or description (or '' @ [APOS] @ ''quit'' @ [APOS] @ '' to exit): ''"

text \<open>
  The loop reads the lines of standard input one by one. At the end of input
  \<^verbatim>\<open>input()\<close> raises \<^verbatim>\<open>EOFError\<close>, which nothing catches. The result is the trace
  and the exception that ended the program, if one did.
\<close>

fun run_loop :: "env \<Rightarrow> event list \<Rightarrow> string list \<Rightarrow> event list \<times> exn option" where
  "run_loop env tr [] = (tr @ [Input input_prompt], Some (Exn EOFError ''EOF when reading a line''))"
| "run_loop env tr (line # rest) =
     (case iteration env (tr @ [Input input_prompt]) line of
        (tr1, Break) \<Rightarrow> (tr1, None)
      | (tr1, Continue) \<Rightarrow> run_loop env tr1 rest
      | (tr1, Uncaught e) \<Rightarrow> (tr1, Some e))"

definition banner :: "event list" where
  "banner =
     [Print ''Welcome to the Weather AI Agent!'',
      Print ''This agent uses Claude 4.5 Sonnet to help you get weather forecasts.'',
      Print (replicate 60 (CHR ''=''))]"

definition run_weather_agent :: "env \<Rightarrow> string list \<Rightarrow> event list \<times> exn option" where
  "run_weather_agent env stdin = run_loop env banner stdin"

text \<open>The calls that leave the machine: the model call and the fetch command.\<close>

fun network_call :: "event \<Rightarrow> bool" where
  "network_call Boto3Client = True"
| "network_call (Converse _) = True"
| "network_call (SubprocessRun _) = True"
| "network_call _ = False"

section \<open>The URL shape the specification asks for\<close>

text \<open>
  The specification asks that a Points URL be the prefix followed by a latitude, a comma
  and a longitude, with nothing after them. \<open>spec_points_url_shape\<close> follows these words,
  a coordinate being a decimal number: an optional minus sign, digits, and optionally a
  point and more digits. It is what the planner is compared with; the program has no such
  check.
\<close>

definition is_digits :: "string \<Rightarrow> bool" where
  "is_digits s = (s \<noteq> [] \<and> list_all (\<lambda>c. c \<in> set ''0123456789'') s)"

definition is_decimal :: "string \<Rightarrow> bool" where
  "is_decimal s =
     (let body = (case s of [] \<Rightarrow> [] | c # r \<Rightarrow> if c = CHR ''-'' then r else s);
          whole = takeWhile (\<lambda>c. c \<noteq> CHR ''.'') body;
          frac = dropWhile (\<lambda>c. c \<noteq> CHR ''.'') body
      in is_digits whole \<and> (frac = [] \<or> is_digits (tl frac)))"

definition spec_points_url_shape :: "string \<Rightarrow> bool" where
  "spec_points_url_shape url =
     (prefix points_prefix url \<and>
      (let rest = drop (length points_prefix) url;
           lat = takeWhile (\<lambda>c. c \<noteq> CHR '','') rest;
           after = dropWhile (\<lambda>c. c \<noteq> CHR '','') rest
       in after \<noteq> [] \<and> is_decimal lat \<and> is_decimal (tl after)))"

section \<open>Sample worlds\<close>

text \<open>
  Concrete environments, on which the theorems below are run. In \<open>seattle_world\<close> every
  service answers: the model gives the Points URL of Seattle at its first call and a
  summary afterwards, the weather service gives a points document and a forecast document,
  and \<open>json_loads\<close> is \<^verbatim>\<open>json.loads\<close> on the documents it lists (every other string of
  the samples is no JSON document); \<open>str_of\<close> is \<^verbatim>\<open>str\<close> on \<^verbatim>\<open>None\<close> and on the
  empty list, which is all the samples need. The other worlds change one answer each.
\<close>

definition bedrock_response :: "string \<Rightarrow> pyval" where
  "bedrock_response text =
     PDict [(''output'', PDict [(''message'', PDict [(''role'', PStr ''assistant''),
                                                     (''content'', PList [PDict [(''text'', PStr text)]])])]),
            (''stopReason'', PStr ''end_turn'')]"

definition seattle_points_url :: string where
  "seattle_points_url = ''https://api.weather.gov/points/47.6062,-122.3321''"

definition seattle_forecast_url :: string where
  "seattle_forecast_url = ''https://api.weather.gov/gridpoints/SEW/125,68/forecast''"

definition points_doc :: string where
  \<open>points_doc = ''{"properties": {"forecast": "https://api.weather.gov/gridpoints/SEW/125,68/forecast"}}''\<close>

definition forecast_doc :: string where
  \<open>forecast_doc = ''{"properties": {"periods": []}}''\<close>

fun is_converse :: "event \<Rightarrow> bool" where
  "is_converse (Converse _) = True"
| "is_converse _ = False"

definition seattle_world :: env where
  "seattle_world =
     \<lparr>boto3_client = (\<lambda>tr. None),
      bedrock_converse = (\<lambda>tr prompt.
        Inr (bedrock_response (if list_ex is_converse tr then ''Seattle: rain.'' else seattle_points_url))),
      subprocess_run = (\<lambda>tr url.
        if url = PStr seattle_points_url then Inr \<lparr>returncode = 0, stdout = points_doc, stderr = []\<rparr>
        else if url = PStr seattle_forecast_url then Inr \<lparr>returncode = 0, stdout = forecast_doc, stderr = []\<rparr>
        else Inr \<lparr>returncode = 6, stdout = [], stderr = []\<rparr>),
      json_loads = (\<lambda>s.
        if s = points_doc then Inr (PDict [(''properties'', PDict [(''forecast'', PStr seattle_forecast_url)])])
        else if s = ''[]'' then Inr (PList [])
        else if s = ''{}'' then Inr (PDict [])
        else Inl (Exn JSONDecodeError ''Expecting value: line 1 column 1 (char 0)'')),
      str_of = (\<lambda>v. if v = PNone then ''None'' else ''[]'')\<rparr>"

text \<open>The fetch command exits with status 6 (\<^verbatim>\<open>curl -s\<close> writes nothing to stderr).\<close>

definition offline_world :: env where
  "offline_world =
     seattle_world\<lparr>subprocess_run := (\<lambda>tr url. Inr \<lparr>returncode = 6, stdout = [], stderr = []\<rparr>)\<rparr>"

text \<open>The fetch command does not end within 30 seconds.\<close>

definition stalled_world :: env where
  "stalled_world =
     seattle_world\<lparr>subprocess_run := (\<lambda>tr url. Inl (Exn TimeoutExpired ''timed out after 30 seconds''))\<rparr>"

text \<open>There is no \<^verbatim>\<open>curl\<close> on the machine: \<^verbatim>\<open>subprocess.run\<close> raises \<^verbatim>\<open>FileNotFoundError\<close>.\<close>

definition no_curl_world :: env where
  "no_curl_world =
     seattle_world\<lparr>subprocess_run := (\<lambda>tr url.
       Inl (Exn OtherException (''[Errno 2] No such file or directory: '' @ [APOS] @ ''curl'' @ [APOS])))\<rparr>"

text \<open>The points fetch works, the forecast fetch exits with status 7.\<close>

definition forecast_down_world :: env where
  "forecast_down_world =
     seattle_world\<lparr>subprocess_run := (\<lambda>tr url.
       if url = PStr seattle_points_url then Inr \<lparr>returncode = 0, stdout = points_doc, stderr = []\<rparr>
       else Inr \<lparr>returncode = 7, stdout = [], stderr = []\<rparr>)\<rparr>"

text \<open>The weather service answers with a page that is no JSON document.\<close>

definition html_world :: env where
  "html_world =
     seattle_world\<lparr>subprocess_run := (\<lambda>tr url.
       Inr \<lparr>returncode = 0, stdout = ''<html>Service Unavailable</html>'', stderr = []\<rparr>)\<rparr>"

text \<open>The weather service answers with the JSON document \<^verbatim>\<open>[]\<close>.\<close>

definition empty_list_world :: env where
  "empty_list_world =
     seattle_world\<lparr>subprocess_run := (\<lambda>tr url. Inr \<lparr>returncode = 0, stdout = ''[]'', stderr = []\<rparr>)\<rparr>"

text \<open>The model answers with the URL and a sentence after it.\<close>

definition chatty_reply :: string where
  "chatty_reply = ''https://api.weather.gov/points/47.6062,-122.3321 is the Points API URL for Seattle.''"

definition chatty_world :: env where
  "chatty_world = seattle_world\<lparr>bedrock_converse := (\<lambda>tr prompt. Inr (bedrock_response chatty_reply))\<rparr>"

text \<open>The model answers with a sentence and a newline, and no URL.\<close>

definition rambling_reply :: string where
  "rambling_reply = ''I think it is near Seattle'' @ [NL]"

definition rambling_world :: env where
  "rambling_world = seattle_world\<lparr>bedrock_converse := (\<lambda>tr prompt. Inr (bedrock_response rambling_reply))\<rparr>"

text \<open>The first model call works, every later one is refused by the service.\<close>

definition throttled_world :: env where
  "throttled_world =
     seattle_world\<lparr>bedrock_converse := (\<lambda>tr prompt.
       if list_ex is_converse tr
       then Inl (Exn OtherException ''An error occurred (ThrottlingException) when calling the Converse operation: Too many requests'')
       else Inr (bedrock_response seattle_points_url))\<rparr>"

text \<open>
  The environment variable \<^verbatim>\<open>AWS_PROFILE\<close> names a profile that does not exist:
  \<^verbatim>\<open>boto3.client\<close> raises \<^verbatim>\<open>ProfileNotFound\<close>.
\<close>

definition no_profile_world :: env where
  "no_profile_world =
     seattle_world\<lparr>boto3_client := (\<lambda>tr. Some (Exn OtherException ''The config profile (dev) could not be found''))\<rparr>"

text \<open>
  \<^verbatim>\<open>json.loads\<close> on two strings that are not JSON documents: it accepts \<^verbatim>\<open>NaN\<close> and
  returns a float, and on two thousand opening brackets it raises \<^verbatim>\<open>RecursionError\<close>
  (CPython 3.11), which is no \<^verbatim>\<open>JSONDecodeError\<close>.
\<close>

definition deep_document :: string where
  "deep_document = replicate 2000 (CHR ''['')"

definition cpython_json_world :: env where
  "cpython_json_world =
     seattle_world\<lparr>json_loads := (\<lambda>s.
       if s = deep_document
       then Inl (Exn OtherException ''maximum recursion depth exceeded while decoding a JSON array from a unicode string'')
       else if s = ''NaN'' then Inr (PFloat ''nan'')
       else json_loads seattle_world s)\<rparr>"

section \<open>Facts about strings\<close>

lemma space_lower: "isspace c \<Longrightarrow> lower_char c = c"
  by (auto simp: isspace_def lower_char_def Let_def)

lemma dropWhile_unchanged: "xs \<noteq> [] \<Longrightarrow> \<not> P (hd xs) \<Longrightarrow> dropWhile P xs = xs"
  by (cases xs) auto

lemma strip_unchanged:
  assumes "s \<noteq> []" and "\<not> isspace (hd s)" and "\<not> isspace (last s)"
  shows "strip s = s"
proof -
  have front: "dropWhile isspace s = s"
    using assms by (simp add: dropWhile_unchanged)
  have "rev s \<noteq> []" and "\<not> isspace (hd (rev s))"
    using assms by (simp_all add: hd_rev)
  then have "dropWhile isspace (rev s) = rev s"
    by (rule dropWhile_unchanged)
  with front show ?thesis
    by (simp add: strip_def)
qed

lemma strip_ends:
  assumes "strip s \<noteq> []"
  shows "\<not> isspace (hd (strip s))" and "\<not> isspace (last (strip s))"
proof -
  define s1 where "s1 = dropWhile isspace s"
  define ys where "ys = dropWhile isspace (rev s1)"
  have t: "strip s = rev ys"
    by (simp add: strip_def s1_def ys_def)
  with assms have ys: "ys \<noteq> []"
    by simp
  then show "\<not> isspace (last (strip s))"
    unfolding t ys_def by (simp add: last_rev hd_dropWhile)
  have "rev s1 = takeWhile isspace (rev s1) @ ys"
    by (simp add: ys_def)
  then have "s1 = rev ys @ rev (takeWhile isspace (rev s1))"
    by (metis rev_append rev_rev_ident)
  with ys have "hd s1 = hd (rev ys)" and "s1 \<noteq> []"
    by (metis hd_append2 rev_is_Nil_conv, metis Nil_is_append_conv rev_is_Nil_conv)
  then show "\<not> isspace (hd (strip s))"
    unfolding t using hd_dropWhile [of isspace s] by (simp add: s1_def)
qed

lemma strip_all_space: "(\<forall>c \<in> set s. isspace c) \<Longrightarrow> strip s = []"
  by (auto simp: strip_def dest: set_dropWhileD)

lemma strip_empty_all_space:
  assumes "strip s = []"
  shows "\<forall>c \<in> set s. isspace c"
proof -
  define s1 where "s1 = dropWhile isspace s"
  from assms have "dropWhile isspace (rev s1) = []"
    by (simp add: strip_def s1_def)
  then have all: "\<forall>c \<in> set s1. isspace c"
    by simp
  have "s1 = []"
  proof (rule ccontr)
    assume ne: "s1 \<noteq> []"
    then have "\<not> isspace (hd s1)"
      unfolding s1_def by (rule hd_dropWhile)
    moreover from ne all have "isspace (hd s1)"
      by simp
    ultimately show False by simp
  qed
  then show ?thesis
    by (simp add: s1_def)
qed

lemma strip_strip: "strip (strip s) = strip s"
proof (cases "strip s = []")
  case True
  then show ?thesis by (simp add: strip_all_space)
next
  case False
  then show ?thesis by (simp add: strip_unchanged strip_ends)
qed

lemma lower_word_unstripped:
  assumes "lower s = w" and "w \<noteq> []" and "\<not> isspace (hd w)" and "\<not> isspace (last w)"
  shows "strip s = s"
proof -
  from assms have ne: "s \<noteq> []"
    by (auto simp: lower_def)
  from assms ne have h: "hd w = lower_char (hd s)" and l: "last w = lower_char (last s)"
    by (auto simp: lower_def hd_map last_map)
  have "\<not> isspace (hd s)"
    using assms(3) h space_lower by force
  moreover have "\<not> isspace (last s)"
    using assms(4) l space_lower by force
  ultimately show ?thesis
    using ne by (simp add: strip_unchanged)
qed

lemma quit_word_unstripped:
  assumes "lower line \<in> set [''quit'', ''exit'', ''q'']"
  shows "strip line = line"
proof -
  from assms consider "lower line = ''quit''" | "lower line = ''exit''" | "lower line = ''q''"
    by auto
  then show ?thesis
  proof cases
    case 1
    then show ?thesis by (rule lower_word_unstripped) (simp_all add: isspace_def)
  next
    case 2
    then show ?thesis by (rule lower_word_unstripped) (simp_all add: isspace_def)
  next
    case 3
    then show ?thesis by (rule lower_word_unstripped) (simp_all add: isspace_def)
  qed
qed

section \<open>Facts about the components\<close>

lemma call_claude_sonnet_with_client:
  "boto3_client env tr = None \<Longrightarrow>
   call_claude_sonnet env tr prompt =
     (tr @ [Boto3Client, Converse prompt],
      Inr (case and_then (bedrock_converse env (tr @ [Boto3Client]) prompt) response_text of
             Inr text \<Rightarrow> (True, text)
           | Inl e \<Rightarrow> (False, PStr (''Error calling Claude: '' @ exn_str e))))"
  by (simp add: call_claude_sonnet_def Let_def split: sum.splits)

lemma response_text_bedrock_response: "response_text (bedrock_response text) = Inr (PStr text)"
  by (simp add: response_text_def bedrock_response_def and_then_def)

lemma execute_curl_command_trace:
  "execute_curl_command env tr url = (tr1, r) \<Longrightarrow> tr1 = tr @ [SubprocessRun url]"
  by (auto simp: execute_curl_command_def Let_def split: sum.splits if_splits)

lemma planner_outcome:
  "generate_weather_api_calls env tr location =
     (case call_claude_sonnet env
             (tr @ [Print (''AI is analyzing '' @ [APOS] @ location @ [APOS] @ '' and generating weather API calls...'')])
             (planner_prompt location) of
        (tr1, Inl e) \<Rightarrow> (tr1, Inl e)
      | (tr1, Inr (True, PStr r)) \<Rightarrow>
          if prefix points_prefix (strip r) then (tr1, Inr (True, PList [PStr (strip r)]))
          else (tr1, Inr (False, PStr (''AI generated invalid URL: '' @ strip r)))
      | (tr1, Inr (True, v)) \<Rightarrow>
          (tr1, Inl (Exn AttributeError
             ([APOS] @ type_name v @ [APOS] @ '' object has no attribute '' @ [APOS] @ ''strip'' @ [APOS])))
      | (tr1, Inr (False, v)) \<Rightarrow> (tr1, Inr (False, v)))"
  by (simp add: generate_weather_api_calls_def Let_def split: prod.splits sum.splits pyval.splits bool.splits)

lemma call_claude_sonnet_returned_trace:
  "call_claude_sonnet env tr prompt = (tr1, Inr r) \<Longrightarrow> tr1 = tr @ [Boto3Client, Converse prompt]"
  by (auto simp: call_claude_sonnet_def Let_def split: option.splits sum.splits)

lemma planner_returned_trace:
  "generate_weather_api_calls env tr location = (tr1, Inr r) \<Longrightarrow>
   tr1 = tr @ [Print (''AI is analyzing '' @ [APOS] @ location @ [APOS] @ '' and generating weather API calls...''),
               Boto3Client, Converse (planner_prompt location)]"
  by (auto simp: generate_weather_api_calls_def Let_def
      split: prod.splits sum.splits pyval.splits if_splits
      dest!: call_claude_sonnet_returned_trace)

lemma summary_returned_trace:
  "process_weather_response env tr raw_json location = (tr1, Inr r) \<Longrightarrow>
   tr1 = tr @ [Print ''AI is processing weather data and creating summary...'',
               Boto3Client, Converse (summary_prompt (fmt env raw_json) location)]"
  by (auto simp: process_weather_response_def Let_def dest!: call_claude_sonnet_returned_trace)

lemma call_claude_sonnet_extends:
  "call_claude_sonnet env tr prompt = (tr1, r) \<Longrightarrow> prefix tr tr1"
  by (auto simp: call_claude_sonnet_def Let_def split: option.splits sum.splits)

lemma planner_extends:
  "generate_weather_api_calls env tr location = (tr1, r) \<Longrightarrow> prefix tr tr1"
  by (auto simp: generate_weather_api_calls_def Let_def
      split: prod.splits sum.splits pyval.splits if_splits
      dest!: call_claude_sonnet_extends append_prefixD)

lemma summary_extends:
  "process_weather_response env tr raw_json location = (tr1, r) \<Longrightarrow> prefix tr tr1"
  by (auto simp: process_weather_response_def Let_def dest!: call_claude_sonnet_extends append_prefixD)

lemma step6_extends: "step6 env tr location summary = (tr1, c) \<Longrightarrow> prefix tr tr1"
  by (auto simp: step6_def)

lemma step5_extends: "step5 env tr location forecast_response = (tr1, c) \<Longrightarrow> prefix tr tr1"
  by (auto simp: step5_def Let_def split: prod.splits sum.splits if_splits
      dest!: summary_extends step6_extends append_prefixD intro: prefix_order.trans)

lemma step4_extends: "step4 env tr location forecast_url = (tr1, c) \<Longrightarrow> prefix tr tr1"
  by (auto simp: step4_def Let_def split: prod.splits sum.splits if_splits
      dest!: execute_curl_command_trace step5_extends append_prefixD)

lemma step3_extends: "step3 env tr location points_response = (tr1, c) \<Longrightarrow> prefix tr tr1"
  by (auto simp: step3_def Let_def split: prod.splits sum.splits if_splits
      dest!: step4_extends append_prefixD)

lemma step2_extends: "step2 env tr location points_url = (tr1, c) \<Longrightarrow> prefix tr tr1"
  by (auto simp: step2_def Let_def split: prod.splits sum.splits if_splits
      dest!: execute_curl_command_trace step3_extends append_prefixD)

lemma step1_extends: "step1 env tr location = (tr1, c) \<Longrightarrow> prefix tr tr1"
  by (auto simp: step1_def Let_def split: prod.splits sum.splits if_splits
      dest!: planner_extends step2_extends append_prefixD intro: prefix_order.trans)

lemma iteration_extends: "iteration env tr line = (tr1, c) \<Longrightarrow> prefix tr tr1"
  by (auto simp: iteration_def Let_def split: if_splits dest!: step1_extends append_prefixD)

lemma run_loop_prompts_first: "prefix (tr @ [Input input_prompt]) (fst (run_loop env tr ls))"
proof (induction ls arbitrary: tr)
  case Nil
  show ?case by simp
next
  case (Cons line rest)
  obtain tr1 c where it: "iteration env (tr @ [Input input_prompt]) line = (tr1, c)"
    by (cases "iteration env (tr @ [Input input_prompt]) line")
  then have p: "prefix (tr @ [Input input_prompt]) tr1"
    by (rule iteration_extends)
  show ?case
  proof (cases c)
    case Continue
    have "prefix (tr1 @ [Input input_prompt]) (fst (run_loop env tr1 rest))"
      by (rule Cons.IH)
    then have "prefix tr1 (fst (run_loop env tr1 rest))"
      by (rule append_prefixD)
    with p it Continue show ?thesis
      by (auto intro: prefix_order.trans)
  next
    case Break
    with p it show ?thesis by simp
  next
    case (Uncaught e)
    with p it show ?thesis by simp
  qed
qed

lemma response_parser_decode_error:
  "json_loads env s = Inl e \<and> exn_class e = JSONDecodeError \<longrightarrow>
     get_forecast_url_from_points_response env (PStr s) =
       Inr (False, PStr (''Error parsing Points API response: '' @ exn_str e))
     \<and> step3 env tr location (PStr s) =
       (tr @ [Print (NL # ''Step 3: Extracting Forecast URL''),
              Print (''[ERROR] Failed to extract forecast URL: Error parsing Points API response: '' @ exn_str e)],
        Continue)"
  by (simp add: step3_def get_forecast_url_from_points_response_def and_then_def)

lemma loop_after_continue:
  assumes "iteration env (past @ [Input input_prompt]) line = (T, Continue)"
  shows "run_loop env past (line # rest) = run_loop env T rest
         \<and> prefix (T @ [Input input_prompt]) (fst (run_loop env past (line # rest)))"
proof -
  from assms have "run_loop env past (line # rest) = run_loop env T rest"
    by simp
  moreover have "prefix (T @ [Input input_prompt]) (fst (run_loop env T rest))"
    by (rule run_loop_prompts_first)
  ultimately show ?thesis
    by simp
qed

lemma loop_after_break:
  assumes "iteration env (past @ [Input input_prompt]) line = (T, Break)"
  shows "run_loop env past (line # rest) = (T, None)"
  using assms by simp

section \<open>Facts about the sample worlds\<close>

lemma call_chatty:
  "call_claude_sonnet chatty_world tr prompt =
     (tr @ [Boto3Client, Converse prompt], Inr (True, PStr chatty_reply))"
  by (simp add: call_claude_sonnet_with_client chatty_world_def seattle_world_def
      response_text_bedrock_response and_then_def)

lemma call_rambling:
  "call_claude_sonnet rambling_world tr prompt =
     (tr @ [Boto3Client, Converse prompt], Inr (True, PStr rambling_reply))"
  by (simp add: call_claude_sonnet_with_client rambling_world_def seattle_world_def
      response_text_bedrock_response and_then_def)

lemma strip_rambling: "strip rambling_reply = ''I think it is near Seattle''"
  by (simp add: strip_def rambling_reply_def isspace_def NL_def)

lemma strip_seattle_points_url: "strip seattle_points_url = seattle_points_url"
  by (simp add: strip_def seattle_points_url_def isspace_def)

lemma prefix_seattle_points_url: "prefix points_prefix seattle_points_url"
  by (simp add: points_prefix_def seattle_points_url_def)

lemma seattle_urls_differ: "seattle_forecast_url \<noteq> seattle_points_url"
  by (simp add: seattle_forecast_url_def seattle_points_url_def)

lemma take_60_seattle_forecast_url: "take 60 seattle_forecast_url = seattle_forecast_url"
  by (simp add: seattle_forecast_url_def)

lemma length_forecast_doc: "length forecast_doc = 31"
  by (simp add: forecast_doc_def)

lemma str_nat_31: "str_nat 31 = ''31''"
  by code_simp

lemma strip_padded_seattle: "strip '' Seattle '' = ''Seattle''"
  by (simp add: strip_def isspace_def)

lemma padded_seattle_is_a_location:
  "lower (strip '' Seattle '') \<notin> set [''quit'', ''exit'', ''q''] \<and> strip '' Seattle '' \<noteq> []"
  by (simp add: strip_padded_seattle lower_def)

lemmas sample_facts = strip_seattle_points_url prefix_seattle_points_url seattle_urls_differ
  take_60_seattle_forecast_url length_forecast_doc str_nat_31 strip_rambling
  response_text_bedrock_response

lemma seattle_pass:
  "step1 seattle_world
     [Print (NL # ''Starting weather analysis for '' @ [APOS] @ ''Seattle'' @ [APOS] @ ''...''),
      Print (replicate 40 (CHR ''-''))]
     ''Seattle'' =
   ([Print (NL # ''Starting weather analysis for '' @ [APOS] @ ''Seattle'' @ [APOS] @ ''...''),
     Print (replicate 40 (CHR ''-'')),
     Print ''Step 1: AI Planning Phase'',
     Print (''AI is analyzing '' @ [APOS] @ ''Seattle'' @ [APOS] @ '' and generating weather API calls...''),
     Boto3Client,
     Converse (planner_prompt ''Seattle''),
     Print (''[SUCCESS] Generated Points API URL: '' @ seattle_points_url),
     Print (NL # ''Step 2: Points API Execution''),
     Print ''Fetching location data from National Weather Service...'',
     SubprocessRun (PStr seattle_points_url),
     Print ''[SUCCESS] Received points data'',
     Print (NL # ''Step 3: Extracting Forecast URL''),
     Print (''[SUCCESS] Forecast URL: '' @ seattle_forecast_url @ ''...''),
     Print (NL # ''Step 4: Forecast API Execution''),
     Print ''Fetching weather forecast data...'',
     SubprocessRun (PStr seattle_forecast_url),
     Print ''[SUCCESS] Received 31 characters of forecast data'',
     Print (NL # ''Step 5: AI Analysis Phase''),
     Print ''AI is processing weather data and creating summary...'',
     Boto3Client,
     Converse (summary_prompt forecast_doc ''Seattle''),
     Print (NL # ''Step 6: Weather Forecast''),
     Print (replicate 60 (CHR ''='')),
     Print ''Seattle: rain.'',
     Print (replicate 60 (CHR ''='')),
     Print (NL # ''[SUCCESS] Weather analysis complete for '' @ [APOS] @ ''Seattle'' @ [APOS] @ ''!'')],
    Continue)"
  by (simp add: step1_def step2_def step3_def step4_def step5_def step6_def
      planner_outcome call_claude_sonnet_with_client execute_curl_command_def
      get_forecast_url_from_points_response_def process_weather_response_def
      seattle_world_def and_then_def Let_def sample_facts)

text \<open>
  The same on whole runs of the program, for the input lines \<^verbatim>\<open>Seattle\<close> and
  \<^verbatim>\<open>quit\<close>: a points document that is a list, and a profile that does not exist, end the
  program with an exception before the second line is read; a points document that is no
  JSON does not.
\<close>

lemma strip_seattle: "strip ''Seattle'' = ''Seattle''"
  by (simp add: strip_def isspace_def)

lemma lower_seattle: "lower ''Seattle'' = ''seattle''"
  by code_simp

lemma strip_quit: "strip ''quit'' = ''quit''"
  by (simp add: strip_def isspace_def)

lemma lower_quit: "lower ''quit'' = ''quit''"
  by code_simp

lemmas sample_lines = strip_seattle lower_seattle strip_quit lower_quit

lemma list_document_ends_the_program:
  "snd (run_weather_agent empty_list_world [''Seattle'', ''quit'']) =
     Some (Exn TypeError ''list indices must be integers or slices, not str'')"
  by (simp add: run_weather_agent_def iteration_def step1_def step2_def step3_def
      planner_outcome call_claude_sonnet_with_client execute_curl_command_def
      get_forecast_url_from_points_response_def
      empty_list_world_def seattle_world_def points_doc_def banner_def
      and_then_def Let_def sample_facts sample_lines)

lemma missing_profile_ends_the_program:
  "snd (run_weather_agent no_profile_world [''Seattle'', ''quit'']) =
     Some (Exn OtherException ''The config profile (dev) could not be found'')"
  by (simp add: run_weather_agent_def iteration_def step1_def
      generate_weather_api_calls_def call_claude_sonnet_def
      no_profile_world_def seattle_world_def
      Let_def sample_lines)

lemma invalid_json_does_not_end_the_program:
  "snd (run_weather_agent html_world [''Seattle'', ''quit'']) = None"
  by (simp add: run_weather_agent_def iteration_def step1_def step2_def step3_def
      planner_outcome call_claude_sonnet_with_client execute_curl_command_def
      get_forecast_url_from_points_response_def
      html_world_def seattle_world_def points_doc_def banner_def
      and_then_def Let_def sample_facts sample_lines)

lemma nan_is_not_deep: "''NaN'' \<noteq> deep_document"
proof
  assume "''NaN'' = deep_document"
  then have "length ''NaN'' = length deep_document"
    by (rule arg_cong)
  then show False
    by (simp add: deep_document_def)
qed

lemma strip_padded_exit: "lower (strip '' exit '') \<in> set [''quit'', ''exit'', ''q'']"
  by code_simp

section \<open>The claims\<close>

subsection \<open>Command execution wrapper\<close>

text \<open>
  C5. For every URL, \<^verbatim>\<open>execute_curl_command\<close> returns success exactly when the fetch
  command ran and its exit status is zero, and then the second component is the captured
  standard output. On a nonzero exit status it returns failure with
  \<^verbatim>\<open>Curl command failed: \<close> followed by the captured standard error; when the 30 second
  timeout elapses, failure with the fixed timeout message; on every other exception of the
  invocation, failure with \<^verbatim>\<open>Error executing curl: \<close> followed by the text of the
  exception. In each case exactly one fetch command has been run.
\<close>

theorem execute_curl_command_outcomes:
  "(fst (snd (execute_curl_command env tr url)) \<longleftrightarrow>
      (\<exists>r. subprocess_run env tr url = Inr r \<and> returncode r = 0))
   \<and> (subprocess_run env tr url = Inr r \<and> returncode r = 0 \<longrightarrow>
        execute_curl_command env tr url = (tr @ [SubprocessRun url], True, PStr (stdout r)))
   \<and> (subprocess_run env tr url = Inr r \<and> returncode r \<noteq> 0 \<longrightarrow>
        execute_curl_command env tr url =
          (tr @ [SubprocessRun url], False, PStr (''Curl command failed: '' @ stderr r)))
   \<and> (subprocess_run env tr url = Inl e \<and> exn_class e = TimeoutExpired \<longrightarrow>
        execute_curl_command env tr url =
          (tr @ [SubprocessRun url], False, PStr ''Request timed out after 30 seconds''))
   \<and> (subprocess_run env tr url = Inl e \<and> exn_class e \<noteq> TimeoutExpired \<longrightarrow>
        execute_curl_command env tr url =
          (tr @ [SubprocessRun url], False, PStr (''Error executing curl: '' @ exn_str e)))"
  by (simp add: execute_curl_command_def Let_def split: sum.splits)

theorem execute_curl_command_outcomes_witness:
  "execute_curl_command seattle_world [] (PStr seattle_points_url) =
     ([SubprocessRun (PStr seattle_points_url)], True, PStr points_doc)
   \<and> execute_curl_command offline_world [] (PStr seattle_points_url) =
     ([SubprocessRun (PStr seattle_points_url)], False, PStr ''Curl command failed: '')
   \<and> execute_curl_command stalled_world [] (PStr seattle_points_url) =
     ([SubprocessRun (PStr seattle_points_url)], False, PStr ''Request timed out after 30 seconds'')
   \<and> execute_curl_command no_curl_world [] (PStr seattle_points_url) =
     ([SubprocessRun (PStr seattle_points_url)], False,
      PStr (''Error executing curl: [Errno 2] No such file or directory: '' @ [APOS] @ ''curl'' @ [APOS]))"
proof -
  let ?url = "PStr seattle_points_url"
  have ok: "subprocess_run seattle_world [] ?url = Inr \<lparr>returncode = 0, stdout = points_doc, stderr = []\<rparr>"
    by (simp add: seattle_world_def)
  have failed: "subprocess_run offline_world [] ?url = Inr \<lparr>returncode = 6, stdout = [], stderr = []\<rparr>"
    by (simp add: offline_world_def)
  have timeout: "subprocess_run stalled_world [] ?url = Inl (Exn TimeoutExpired ''timed out after 30 seconds'')"
    by (simp add: stalled_world_def)
  have other: "subprocess_run no_curl_world [] ?url =
      Inl (Exn OtherException (''[Errno 2] No such file or directory: '' @ [APOS] @ ''curl'' @ [APOS]))"
    by (simp add: no_curl_world_def)
  show ?thesis
    using execute_curl_command_outcomes [of seattle_world "[]" ?url "\<lparr>returncode = 0, stdout = points_doc, stderr = []\<rparr>"]
      execute_curl_command_outcomes [of offline_world "[]" ?url "\<lparr>returncode = 6, stdout = [], stderr = []\<rparr>"]
      execute_curl_command_outcomes [of stalled_world "[]" ?url _ "Exn TimeoutExpired ''timed out after 30 seconds''"]
      execute_curl_command_outcomes [of no_curl_world "[]" ?url _
         "Exn OtherException (''[Errno 2] No such file or directory: '' @ [APOS] @ ''curl'' @ [APOS])"]
      ok failed timeout other
    by simp
qed

subsection \<open>Text generation client\<close>

text \<open>
  C6. The claim is that every exception raised during \<^verbatim>\<open>call_claude_sonnet\<close>, the
  construction of the service client included, comes back as a failure pair. The program
  builds the client before its \<^verbatim>\<open>try\<close>: when \<^verbatim>\<open>boto3.client\<close> raises, the exception
  leaves \<^verbatim>\<open>call_claude_sonnet\<close>, and no model call is made. (Exceptions of the model call
  and of reading the response are caught: \<open>call_claude_sonnet_with_client\<close>.)
\<close>

theorem call_claude_sonnet_client_construction_escapes:
  "boto3_client env tr = Some e \<Longrightarrow> call_claude_sonnet env tr prompt = (tr @ [Boto3Client], Inl e)"
  by (simp add: call_claude_sonnet_def)

theorem call_claude_sonnet_client_construction_escapes_witness:
  "call_claude_sonnet no_profile_world [] (planner_prompt ''Seattle'') =
     ([Boto3Client], Inl (Exn OtherException ''The config profile (dev) could not be found''))"
proof -
  have "boto3_client no_profile_world [] = Some (Exn OtherException ''The config profile (dev) could not be found'')"
    by (simp add: no_profile_world_def)
  then show ?thesis
    using call_claude_sonnet_client_construction_escapes [of no_profile_world "[]" _ "planner_prompt ''Seattle''"]
    by simp
qed

subsection \<open>Response parser\<close>

text \<open>
  C2. The claim is that a well-formed JSON document without \<^verbatim>\<open>properties.forecast\<close>
  gives a failure pair also when the document is not an object. When \<^verbatim>\<open>json.loads\<close>
  returns a list, \<^verbatim>\<open>data['properties']\<close> raises \<^verbatim>\<open>TypeError\<close>, which the handler
  \<^verbatim>\<open>except (json.JSONDecodeError, KeyError)\<close> does not catch: the exception leaves
  \<^verbatim>\<open>get_forecast_url_from_points_response\<close>.
\<close>

theorem response_parser_list_document_escapes:
  "json_loads env s = Inr (PList xs) \<Longrightarrow>
   get_forecast_url_from_points_response env (PStr s) =
     Inl (Exn TypeError ''list indices must be integers or slices, not str'')"
  by (simp add: get_forecast_url_from_points_response_def and_then_def)

theorem response_parser_list_document_escapes_witness:
  "get_forecast_url_from_points_response seattle_world (PStr ''[]'') =
     Inl (Exn TypeError ''list indices must be integers or slices, not str'')"
proof -
  have "json_loads seattle_world ''[]'' = Inr (PList [])"
    by (simp add: seattle_world_def points_doc_def)
  then show ?thesis
    by (rule response_parser_list_document_escapes)
qed

text \<open>
  C4. The claim is that every string that is not syntactically valid JSON gives a failure
  pair with a decode-error message, and that nothing is raised. This holds when
  \<^verbatim>\<open>json.loads\<close> raises \<^verbatim>\<open>JSONDecodeError\<close> (\<open>response_parser_decode_error\<close>), but not
  for every such string. \<^verbatim>\<open>json.loads\<close> accepts \<^verbatim>\<open>NaN\<close> and returns a float, on which
  \<^verbatim>\<open>data['properties']\<close> raises \<^verbatim>\<open>TypeError\<close>; and an exception of \<^verbatim>\<open>json.loads\<close>
  of another class, such as the \<^verbatim>\<open>RecursionError\<close> for deeply nested brackets, is not
  named by the handler either. In both cases the exception leaves
  \<^verbatim>\<open>get_forecast_url_from_points_response\<close> and step 3 of the orchestrator.
\<close>

theorem response_parser_invalid_json_escapes:
  "(json_loads env s = Inr (PFloat f) \<longrightarrow>
      get_forecast_url_from_points_response env (PStr s) =
        Inl (Exn TypeError ([APOS] @ ''float'' @ [APOS] @ '' object is not subscriptable''))
      \<and> step3 env tr location (PStr s) =
        (tr @ [Print (NL # ''Step 3: Extracting Forecast URL'')],
         Uncaught (Exn TypeError ([APOS] @ ''float'' @ [APOS] @ '' object is not subscriptable''))))
   \<and> (json_loads env s = Inl e \<and> exn_class e \<noteq> JSONDecodeError \<and> exn_class e \<noteq> KeyError \<longrightarrow>
      get_forecast_url_from_points_response env (PStr s) = Inl e
      \<and> step3 env tr location (PStr s) =
        (tr @ [Print (NL # ''Step 3: Extracting Forecast URL'')], Uncaught e))"
  by (simp add: step3_def get_forecast_url_from_points_response_def and_then_def not_subscriptable_def)

theorem response_parser_invalid_json_escapes_witness:
  "get_forecast_url_from_points_response cpython_json_world (PStr ''NaN'') =
     Inl (Exn TypeError ([APOS] @ ''float'' @ [APOS] @ '' object is not subscriptable''))
   \<and> step3 cpython_json_world [] ''Seattle'' (PStr ''NaN'') =
     ([Print (NL # ''Step 3: Extracting Forecast URL'')],
      Uncaught (Exn TypeError ([APOS] @ ''float'' @ [APOS] @ '' object is not subscriptable'')))
   \<and> get_forecast_url_from_points_response cpython_json_world (PStr deep_document) =
     Inl (Exn OtherException ''maximum recursion depth exceeded while decoding a JSON array from a unicode string'')
   \<and> step3 cpython_json_world [] ''Seattle'' (PStr deep_document) =
     ([Print (NL # ''Step 3: Extracting Forecast URL'')],
      Uncaught (Exn OtherException ''maximum recursion depth exceeded while decoding a JSON array from a unicode string''))"
proof -
  note claim = response_parser_invalid_json_escapes
  have nan: "json_loads cpython_json_world ''NaN'' = Inr (PFloat ''nan'')"
    by (simp add: cpython_json_world_def nan_is_not_deep)
  have deep: "json_loads cpython_json_world deep_document =
      Inl (Exn OtherException ''maximum recursion depth exceeded while decoding a JSON array from a unicode string'')
    \<and> exn_class (Exn OtherException ''maximum recursion depth exceeded while decoding a JSON array from a unicode string'') \<noteq> JSONDecodeError
    \<and> exn_class (Exn OtherException ''maximum recursion depth exceeded while decoding a JSON array from a unicode string'') \<noteq> KeyError"
    by (simp add: cpython_json_world_def)
  from claim [THEN conjunct1, THEN mp, OF nan, of "[]" "''Seattle''"]
    claim [THEN conjunct2, THEN mp, OF deep, of "[]" "''Seattle''"]
  show ?thesis
    by simp
qed

subsection \<open>Coordinate and URL planner\<close>

text \<open>
  C1. Whenever the planner returns success, its result is a list of one element: the
  output of the model with the whitespace at both ends removed, and this string starts
  with \<^verbatim>\<open>https://api.weather.gov/points/\<close>. What follows the prefix is not checked,
  so the stronger statement (the URL is the prefix, a latitude, a comma and a longitude,
  and nothing more) does not hold: see the counterexample.
\<close>

theorem planner_success_is_prefixed_trimmed_output:
  "generate_weather_api_calls env tr location = (tr1, Inr (True, api_calls)) \<Longrightarrow>
   \<exists>r. call_claude_sonnet env
          (tr @ [Print (''AI is analyzing '' @ [APOS] @ location @ [APOS] @ '' and generating weather API calls...'')])
          (planner_prompt location) = (tr1, Inr (True, PStr r))
       \<and> api_calls = PList [PStr (strip r)]
       \<and> prefix points_prefix (strip r)"
  by (auto simp: generate_weather_api_calls_def Let_def split: prod.splits sum.splits pyval.splits if_splits)

theorem planner_success_is_prefixed_trimmed_output_witness:
  "generate_weather_api_calls seattle_world [] ''Seattle'' =
     ([Print (''AI is analyzing '' @ [APOS] @ ''Seattle'' @ [APOS] @ '' and generating weather API calls...''),
       Boto3Client, Converse (planner_prompt ''Seattle'')],
      Inr (True, PList [PStr seattle_points_url]))
   \<and> (\<exists>r. call_claude_sonnet seattle_world
          [Print (''AI is analyzing '' @ [APOS] @ ''Seattle'' @ [APOS] @ '' and generating weather API calls...'')]
          (planner_prompt ''Seattle'') =
            ([Print (''AI is analyzing '' @ [APOS] @ ''Seattle'' @ [APOS] @ '' and generating weather API calls...''),
              Boto3Client, Converse (planner_prompt ''Seattle'')],
             Inr (True, PStr r))
       \<and> PList [PStr seattle_points_url] = PList [PStr (strip r)]
       \<and> prefix points_prefix (strip r))"
proof -
  have run: "generate_weather_api_calls seattle_world [] ''Seattle'' =
     ([Print (''AI is analyzing '' @ [APOS] @ ''Seattle'' @ [APOS] @ '' and generating weather API calls...''),
       Boto3Client, Converse (planner_prompt ''Seattle'')],
      Inr (True, PList [PStr seattle_points_url]))"
    by (simp add: planner_outcome call_claude_sonnet_with_client seattle_world_def
        response_text_bedrock_response and_then_def seattle_points_url_def strip_def isspace_def
        points_prefix_def)
  from planner_success_is_prefixed_trimmed_output [OF run] run show ?thesis
    by simp
qed

text \<open>
  The model answers with the URL followed by a sentence: the planner returns success with
  the whole answer, which is not of the shape the specification asks for.
\<close>

theorem planner_url_shape_counterexample:
  "generate_weather_api_calls chatty_world [] ''Seattle'' =
     ([Print (''AI is analyzing '' @ [APOS] @ ''Seattle'' @ [APOS] @ '' and generating weather API calls...''),
       Boto3Client, Converse (planner_prompt ''Seattle'')],
      Inr (True, PList [PStr chatty_reply]))
   \<and> \<not> spec_points_url_shape chatty_reply"
proof -
  have "strip chatty_reply = chatty_reply"
    by (simp add: strip_def chatty_reply_def isspace_def)
  moreover have "prefix points_prefix chatty_reply"
    by (simp add: points_prefix_def chatty_reply_def)
  ultimately have "generate_weather_api_calls chatty_world [] ''Seattle'' =
     ([Print (''AI is analyzing '' @ [APOS] @ ''Seattle'' @ [APOS] @ '' and generating weather API calls...''),
       Boto3Client, Converse (planner_prompt ''Seattle'')],
      Inr (True, PList [PStr chatty_reply]))"
    by (simp add: planner_outcome call_chatty)
  moreover have "\<not> spec_points_url_shape chatty_reply"
    unfolding chatty_reply_def by code_simp
  ultimately show ?thesis
    by simp
qed

text \<open>
  C3. For every model output whose trimmed text does not start with
  \<^verbatim>\<open>https://api.weather.gov/points/\<close>, the planner returns failure, and its message is
  \<^verbatim>\<open>AI generated invalid URL: \<close> followed by the trimmed text, which the message
  therefore contains verbatim. The raw output, with its surrounding whitespace, is not in
  the message: see the counterexample.
\<close>

theorem planner_rejection_embeds_trimmed_output:
  "call_claude_sonnet env
      (tr @ [Print (''AI is analyzing '' @ [APOS] @ location @ [APOS] @ '' and generating weather API calls...'')])
      (planner_prompt location) = (tr1, Inr (True, PStr r))
   \<and> \<not> prefix points_prefix (strip r) \<longrightarrow>
   generate_weather_api_calls env tr location =
      (tr1, Inr (False, PStr (''AI generated invalid URL: '' @ strip r)))
   \<and> sublist (strip r) (''AI generated invalid URL: '' @ strip r)"
proof (intro impI conjI)
  show "sublist (strip r) (''AI generated invalid URL: '' @ strip r)"
    by (rule sublist_append_leftI)
next
  assume "call_claude_sonnet env
      (tr @ [Print (''AI is analyzing '' @ [APOS] @ location @ [APOS] @ '' and generating weather API calls...'')])
      (planner_prompt location) = (tr1, Inr (True, PStr r))
   \<and> \<not> prefix points_prefix (strip r)"
  then show "generate_weather_api_calls env tr location =
      (tr1, Inr (False, PStr (''AI generated invalid URL: '' @ strip r)))"
    by (simp add: planner_outcome)
qed

theorem planner_rejection_embeds_trimmed_output_witness:
  "generate_weather_api_calls rambling_world [] ''Seattle'' =
     ([Print (''AI is analyzing '' @ [APOS] @ ''Seattle'' @ [APOS] @ '' and generating weather API calls...''),
       Boto3Client, Converse (planner_prompt ''Seattle'')],
      Inr (False, PStr ''AI generated invalid URL: I think it is near Seattle''))
   \<and> sublist ''I think it is near Seattle'' ''AI generated invalid URL: I think it is near Seattle''"
proof -
  have "\<not> prefix points_prefix (strip rambling_reply)"
    by (simp add: strip_rambling points_prefix_def)
  then show ?thesis
    using planner_rejection_embeds_trimmed_output [of rambling_world "[]" "''Seattle''" _ rambling_reply]
    by (simp add: call_rambling strip_rambling)
qed

text \<open>
  The model answers with a sentence that ends in a newline: the message of the failure has
  the sentence without the newline, so the raw output is not part of it.
\<close>

theorem planner_rejection_raw_output_counterexample:
  "call_claude_sonnet rambling_world
      [Print (''AI is analyzing '' @ [APOS] @ ''Seattle'' @ [APOS] @ '' and generating weather API calls...'')]
      (planner_prompt ''Seattle'') =
     ([Print (''AI is analyzing '' @ [APOS] @ ''Seattle'' @ [APOS] @ '' and generating weather API calls...''),
       Boto3Client, Converse (planner_prompt ''Seattle'')],
      Inr (True, PStr rambling_reply))
   \<and> \<not> prefix points_prefix (strip rambling_reply)
   \<and> generate_weather_api_calls rambling_world [] ''Seattle'' =
     ([Print (''AI is analyzing '' @ [APOS] @ ''Seattle'' @ [APOS] @ '' and generating weather API calls...''),
       Boto3Client, Converse (planner_prompt ''Seattle'')],
      Inr (False, PStr ''AI generated invalid URL: I think it is near Seattle''))
   \<and> \<not> sublist rambling_reply ''AI generated invalid URL: I think it is near Seattle''"
proof -
  have "\<not> prefix points_prefix (strip rambling_reply)"
    by (simp add: strip_rambling points_prefix_def)
  moreover have "\<not> sublist rambling_reply ''AI generated invalid URL: I think it is near Seattle''"
    unfolding rambling_reply_def NL_def by code_simp
  ultimately show ?thesis
    by (simp add: planner_outcome call_rambling strip_rambling points_prefix_def)
qed

subsection \<open>Orchestrator\<close>

text \<open>
  C7. Within one pass of the loop, when a step returns failure the orchestrator prints one
  \<^verbatim>\<open>[ERROR]\<close> line and goes back to awaiting input; nothing of a later step happens.
  First, for each of the five steps, the events of the pass from the line
  \<^verbatim>\<open>print("Step k ...")\<close> on are the events of the failing step followed by that one
  line, and for a whole pass in which the planner succeeds and the points fetch fails, the
  events after the planner are three progress lines, the one fetch command and the error
  line. Then, for the loop: along the pass of a line that is a location, whichever of the
  five steps is the first to return failure, the loop goes on with the remaining lines
  from the trace of that step with the one error line added, and its next event is the
  prompt of \<^verbatim>\<open>input\<close>. In particular, when the points fetch fails, the trace up to that
  prompt ends with the fetch command of the points URL and the error line: there is no
  forecast fetch and no summary call in that pass.
\<close>

theorem failed_step_ends_iteration:
  "(generate_weather_api_calls env (tr @ [Print ''Step 1: AI Planning Phase'']) location =
      (tr1, Inr (False, msg)) \<longrightarrow>
    step1 env tr location =
      (tr @ [Print ''Step 1: AI Planning Phase'',
             Print (''AI is analyzing '' @ [APOS] @ location @ [APOS] @ '' and generating weather API calls...''),
             Boto3Client,
             Converse (planner_prompt location),
             Print (''[ERROR] Failed to generate API calls: '' @ fmt env msg)],
       Continue))
   \<and> (execute_curl_command env
         (tr @ [Print (NL # ''Step 2: Points API Execution''),
                Print ''Fetching location data from National Weather Service...''])
         points_url = (tr1, False, msg) \<longrightarrow>
       step2 env tr location points_url =
         (tr @ [Print (NL # ''Step 2: Points API Execution''),
                Print ''Fetching location data from National Weather Service...'',
                SubprocessRun points_url,
                Print (''[ERROR] Failed to fetch points data: '' @ fmt env msg)],
          Continue))
   \<and> (get_forecast_url_from_points_response env points_response = Inr (False, msg) \<longrightarrow>
       step3 env tr location points_response =
         (tr @ [Print (NL # ''Step 3: Extracting Forecast URL''),
                Print (''[ERROR] Failed to extract forecast URL: '' @ fmt env msg)],
          Continue))
   \<and> (execute_curl_command env
         (tr @ [Print (NL # ''Step 4: Forecast API Execution''),
                Print ''Fetching weather forecast data...''])
         forecast_url = (tr1, False, msg) \<longrightarrow>
       step4 env tr location forecast_url =
         (tr @ [Print (NL # ''Step 4: Forecast API Execution''),
                Print ''Fetching weather forecast data...'',
                SubprocessRun forecast_url,
                Print (''[ERROR] Failed to fetch forecast data: '' @ fmt env msg)],
          Continue))
   \<and> (process_weather_response env (tr @ [Print (NL # ''Step 5: AI Analysis Phase'')])
         forecast_response location = (tr1, Inr (False, msg)) \<longrightarrow>
       step5 env tr location forecast_response =
         (tr @ [Print (NL # ''Step 5: AI Analysis Phase''),
                Print ''AI is processing weather data and creating summary...'',
                Boto3Client,
                Converse (summary_prompt (fmt env forecast_response) location),
                Print (''[ERROR] Failed to process data: '' @ fmt env msg)],
          Continue))
   \<and> (lower (strip line) \<notin> set [''quit'', ''exit'', ''q''] \<and> strip line \<noteq> []
       \<and> generate_weather_api_calls env
            (tr @ [Print (NL # ''Starting weather analysis for '' @ [APOS] @ strip line @ [APOS] @ ''...''),
                   Print (replicate 40 (CHR ''-'')),
                   Print ''Step 1: AI Planning Phase''])
            (strip line) = (tr1, Inr (True, PList [points_url]))
       \<and> execute_curl_command env
            (tr1 @ [Print (''[SUCCESS] Generated Points API URL: '' @ fmt env points_url),
                    Print (NL # ''Step 2: Points API Execution''),
                    Print ''Fetching location data from National Weather Service...''])
            points_url = (tr2, False, msg) \<longrightarrow>
       iteration env tr line =
         (tr1 @ [Print (''[SUCCESS] Generated Points API URL: '' @ fmt env points_url),
                 Print (NL # ''Step 2: Points API Execution''),
                 Print ''Fetching location data from National Weather Service...'',
                 SubprocessRun points_url,
                 Print (''[ERROR] Failed to fetch points data: '' @ fmt env msg)],
          Continue))
   \<and> (lower (strip line) \<notin> set [''quit'', ''exit'', ''q''] \<and> strip line \<noteq> [] \<longrightarrow>
       (generate_weather_api_calls env
          (past @ [Input input_prompt,
                   Print (NL # ''Starting weather analysis for '' @ [APOS] @ strip line @ [APOS] @ ''...''),
                   Print (replicate 40 (CHR ''-'')),
                   Print ''Step 1: AI Planning Phase''])
          (strip line) = (tr1, Inr (False, msg)) \<longrightarrow>
        run_loop env past (line # rest) =
          run_loop env (tr1 @ [Print (''[ERROR] Failed to generate API calls: '' @ fmt env msg)]) rest
        \<and> prefix (tr1 @ [Print (''[ERROR] Failed to generate API calls: '' @ fmt env msg), Input input_prompt])
             (fst (run_loop env past (line # rest))))
       \<and> (generate_weather_api_calls env
            (past @ [Input input_prompt,
                     Print (NL # ''Starting weather analysis for '' @ [APOS] @ strip line @ [APOS] @ ''...''),
                     Print (replicate 40 (CHR ''-'')),
                     Print ''Step 1: AI Planning Phase''])
            (strip line) = (tr1, Inr (True, PList [points_url])) \<longrightarrow>
          (execute_curl_command env
             (tr1 @ [Print (''[SUCCESS] Generated Points API URL: '' @ fmt env points_url),
                     Print (NL # ''Step 2: Points API Execution''),
                     Print ''Fetching location data from National Weather Service...''])
             points_url = (tr2, False, msg) \<longrightarrow>
           tr2 = tr1 @ [Print (''[SUCCESS] Generated Points API URL: '' @ fmt env points_url),
                        Print (NL # ''Step 2: Points API Execution''),
                        Print ''Fetching location data from National Weather Service...'',
                        SubprocessRun points_url]
           \<and> run_loop env past (line # rest) =
               run_loop env (tr2 @ [Print (''[ERROR] Failed to fetch points data: '' @ fmt env msg)]) rest
           \<and> prefix (tr2 @ [Print (''[ERROR] Failed to fetch points data: '' @ fmt env msg), Input input_prompt])
                (fst (run_loop env past (line # rest))))
          \<and> (execute_curl_command env
               (tr1 @ [Print (''[SUCCESS] Generated Points API URL: '' @ fmt env points_url),
                       Print (NL # ''Step 2: Points API Execution''),
                       Print ''Fetching location data from National Weather Service...''])
               points_url = (tr2, True, points_response) \<longrightarrow>
             (get_forecast_url_from_points_response env points_response = Inr (False, msg) \<longrightarrow>
              run_loop env past (line # rest) =
                run_loop env
                  (tr2 @ [Print ''[SUCCESS] Received points data'',
                          Print (NL # ''Step 3: Extracting Forecast URL''),
                          Print (''[ERROR] Failed to extract forecast URL: '' @ fmt env msg)])
                  rest
              \<and> prefix (tr2 @ [Print ''[SUCCESS] Received points data'',
                                Print (NL # ''Step 3: Extracting Forecast URL''),
                                Print (''[ERROR] Failed to extract forecast URL: '' @ fmt env msg),
                                Input input_prompt])
                   (fst (run_loop env past (line # rest))))
             \<and> (get_forecast_url_from_points_response env points_response = Inr (True, forecast_url)
                \<and> slice60 forecast_url = Inr shown \<longrightarrow>
                (execute_curl_command env
                   (tr2 @ [Print ''[SUCCESS] Received points data'',
                           Print (NL # ''Step 3: Extracting Forecast URL''),
                           Print (''[SUCCESS] Forecast URL: '' @ fmt env shown @ ''...''),
                           Print (NL # ''Step 4: Forecast API Execution''),
                           Print ''Fetching weather forecast data...''])
                   forecast_url = (tr3, False, msg) \<longrightarrow>
                 run_loop env past (line # rest) =
                   run_loop env (tr3 @ [Print (''[ERROR] Failed to fetch forecast data: '' @ fmt env msg)]) rest
                 \<and> prefix (tr3 @ [Print (''[ERROR] Failed to fetch forecast data: '' @ fmt env msg), Input input_prompt])
                      (fst (run_loop env past (line # rest))))
                \<and> (execute_curl_command env
                     (tr2 @ [Print ''[SUCCESS] Received points data'',
                             Print (NL # ''Step 3: Extracting Forecast URL''),
                             Print (''[SUCCESS] Forecast URL: '' @ fmt env shown @ ''...''),
                             Print (NL # ''Step 4: Forecast API Execution''),
                             Print ''Fetching weather forecast data...''])
                     forecast_url = (tr3, True, forecast_response)
                   \<and> len forecast_response = Inr n \<longrightarrow>
                   (process_weather_response env
                      (tr3 @ [Print (''[SUCCESS] Received '' @ str_nat n @ '' characters of forecast data''),
                              Print (NL # ''Step 5: AI Analysis Phase'')])
                      forecast_response (strip line) = (tr4, Inr (False, msg)) \<longrightarrow>
                    run_loop env past (line # rest) =
                      run_loop env (tr4 @ [Print (''[ERROR] Failed to process data: '' @ fmt env msg)]) rest
                    \<and> prefix (tr4 @ [Print (''[ERROR] Failed to process data: '' @ fmt env msg), Input input_prompt])
                         (fst (run_loop env past (line # rest)))))))))"
proof (intro conjI impI; (elim conjE)?)
  assume a: "generate_weather_api_calls env (tr @ [Print ''Step 1: AI Planning Phase'']) location =
      (tr1, Inr (False, msg))"
  from planner_returned_trace [OF a] a
  show "step1 env tr location =
      (tr @ [Print ''Step 1: AI Planning Phase'',
             Print (''AI is analyzing '' @ [APOS] @ location @ [APOS] @ '' and generating weather API calls...''),
             Boto3Client,
             Converse (planner_prompt location),
             Print (''[ERROR] Failed to generate API calls: '' @ fmt env msg)],
       Continue)"
    by (simp add: step1_def)
next
  assume a: "execute_curl_command env
         (tr @ [Print (NL # ''Step 2: Points API Execution''),
                Print ''Fetching location data from National Weather Service...''])
         points_url = (tr1, False, msg)"
  from execute_curl_command_trace [OF a] a
  show "step2 env tr location points_url =
         (tr @ [Print (NL # ''Step 2: Points API Execution''),
                Print ''Fetching location data from National Weather Service...'',
                SubprocessRun points_url,
                Print (''[ERROR] Failed to fetch points data: '' @ fmt env msg)],
          Continue)"
    by (simp add: step2_def)
next
  assume "get_forecast_url_from_points_response env points_response = Inr (False, msg)"
  then show "step3 env tr location points_response =
         (tr @ [Print (NL # ''Step 3: Extracting Forecast URL''),
                Print (''[ERROR] Failed to extract forecast URL: '' @ fmt env msg)],
          Continue)"
    by (simp add: step3_def)
next
  assume a: "execute_curl_command env
         (tr @ [Print (NL # ''Step 4: Forecast API Execution''),
                Print ''Fetching weather forecast data...''])
         forecast_url = (tr1, False, msg)"
  from execute_curl_command_trace [OF a] a
  show "step4 env tr location forecast_url =
         (tr @ [Print (NL # ''Step 4: Forecast API Execution''),
                Print ''Fetching weather forecast data...'',
                SubprocessRun forecast_url,
                Print (''[ERROR] Failed to fetch forecast data: '' @ fmt env msg)],
          Continue)"
    by (simp add: step4_def)
next
  assume a: "process_weather_response env (tr @ [Print (NL # ''Step 5: AI Analysis Phase'')])
         forecast_response location = (tr1, Inr (False, msg))"
  from summary_returned_trace [OF a] a
  show "step5 env tr location forecast_response =
         (tr @ [Print (NL # ''Step 5: AI Analysis Phase''),
                Print ''AI is processing weather data and creating summary...'',
                Boto3Client,
                Converse (summary_prompt (fmt env forecast_response) location),
                Print (''[ERROR] Failed to process data: '' @ fmt env msg)],
          Continue)"
    by (simp add: step5_def)
next
  assume a: "lower (strip line) \<notin> set [''quit'', ''exit'', ''q'']" "strip line \<noteq> []"
       "generate_weather_api_calls env
            (tr @ [Print (NL # ''Starting weather analysis for '' @ [APOS] @ strip line @ [APOS] @ ''...''),
                   Print (replicate 40 (CHR ''-'')),
                   Print ''Step 1: AI Planning Phase''])
            (strip line) = (tr1, Inr (True, PList [points_url]))"
       "execute_curl_command env
            (tr1 @ [Print (''[SUCCESS] Generated Points API URL: '' @ fmt env points_url),
                    Print (NL # ''Step 2: Points API Execution''),
                    Print ''Fetching location data from National Weather Service...''])
            points_url = (tr2, False, msg)"
  from execute_curl_command_trace [OF a(4)]
  have tr2: "tr2 = tr1 @ [Print (''[SUCCESS] Generated Points API URL: '' @ fmt env points_url),
                    Print (NL # ''Step 2: Points API Execution''),
                    Print ''Fetching location data from National Weather Service...'',
                    SubprocessRun points_url]"
    by simp
  from a show "iteration env tr line =
         (tr1 @ [Print (''[SUCCESS] Generated Points API URL: '' @ fmt env points_url),
                 Print (NL # ''Step 2: Points API Execution''),
                 Print ''Fetching location data from National Weather Service...'',
                 SubprocessRun points_url,
                 Print (''[ERROR] Failed to fetch points data: '' @ fmt env msg)],
          Continue)"
    by (simp add: iteration_def step1_def step2_def Let_def tr2)
next
  assume valid: "lower (strip line) \<notin> set [''quit'', ''exit'', ''q'']" "strip line \<noteq> []"
  then have it: "iteration env (past @ [Input input_prompt]) line =
      step1 env
        (past @ [Input input_prompt,
                 Print (NL # ''Starting weather analysis for '' @ [APOS] @ strip line @ [APOS] @ ''...''),
                 Print (replicate 40 (CHR ''-''))])
        (strip line)"
    by (simp add: iteration_def Let_def)
  assume "generate_weather_api_calls env
    (past @ [Input input_prompt,
             Print (NL # ''Starting weather analysis for '' @ [APOS] @ strip line @ [APOS] @ ''...''),
             Print (replicate 40 (CHR ''-'')),
             Print ''Step 1: AI Planning Phase''])
    (strip line) = (tr1, Inr (False, msg))"
  then have "iteration env (past @ [Input input_prompt]) line =
      (tr1 @ [Print (''[ERROR] Failed to generate API calls: '' @ fmt env msg)], Continue)"
    by (simp add: it step1_def)
  note again = loop_after_continue [OF this, of rest]
  show "run_loop env past (line # rest) =
      run_loop env (tr1 @ [Print (''[ERROR] Failed to generate API calls: '' @ fmt env msg)]) rest"
    by (rule again [THEN conjunct1])
  show "prefix (tr1 @ [Print (''[ERROR] Failed to generate API calls: '' @ fmt env msg), Input input_prompt])
       (fst (run_loop env past (line # rest)))"
    using again [THEN conjunct2] by (simp del: run_loop.simps)
next
  assume valid: "lower (strip line) \<notin> set [''quit'', ''exit'', ''q'']" "strip line \<noteq> []"
  then have it: "iteration env (past @ [Input input_prompt]) line =
      step1 env
        (past @ [Input input_prompt,
                 Print (NL # ''Starting weather analysis for '' @ [APOS] @ strip line @ [APOS] @ ''...''),
                 Print (replicate 40 (CHR ''-''))])
        (strip line)"
    by (simp add: iteration_def Let_def)
  assume p: "generate_weather_api_calls env
      (past @ [Input input_prompt,
               Print (NL # ''Starting weather analysis for '' @ [APOS] @ strip line @ [APOS] @ ''...''),
               Print (replicate 40 (CHR ''-'')),
               Print ''Step 1: AI Planning Phase''])
      (strip line) = (tr1, Inr (True, PList [points_url]))"
    and f: "execute_curl_command env
       (tr1 @ [Print (''[SUCCESS] Generated Points API URL: '' @ fmt env points_url),
               Print (NL # ''Step 2: Points API Execution''),
               Print ''Fetching location data from National Weather Service...''])
       points_url = (tr2, False, msg)"
  from execute_curl_command_trace [OF f]
  show "tr2 = tr1 @ [Print (''[SUCCESS] Generated Points API URL: '' @ fmt env points_url),
                  Print (NL # ''Step 2: Points API Execution''),
                  Print ''Fetching location data from National Weather Service...'',
                  SubprocessRun points_url]"
    by simp
  from p f have "iteration env (past @ [Input input_prompt]) line =
      (tr2 @ [Print (''[ERROR] Failed to fetch points data: '' @ fmt env msg)], Continue)"
    by (simp add: it step1_def step2_def)
  note again = loop_after_continue [OF this, of rest]
  show "run_loop env past (line # rest) =
         run_loop env (tr2 @ [Print (''[ERROR] Failed to fetch points data: '' @ fmt env msg)]) rest"
    by (rule again [THEN conjunct1])
  show "prefix (tr2 @ [Print (''[ERROR] Failed to fetch points data: '' @ fmt env msg), Input input_prompt])
          (fst (run_loop env past (line # rest)))"
    using again [THEN conjunct2] by (simp del: run_loop.simps)
next
  assume valid: "lower (strip line) \<notin> set [''quit'', ''exit'', ''q'']" "strip line \<noteq> []"
  then have it: "iteration env (past @ [Input input_prompt]) line =
      step1 env
        (past @ [Input input_prompt,
                 Print (NL # ''Starting weather analysis for '' @ [APOS] @ strip line @ [APOS] @ ''...''),
                 Print (replicate 40 (CHR ''-''))])
        (strip line)"
    by (simp add: iteration_def Let_def)
  assume p: "generate_weather_api_calls env
      (past @ [Input input_prompt,
               Print (NL # ''Starting weather analysis for '' @ [APOS] @ strip line @ [APOS] @ ''...''),
               Print (replicate 40 (CHR ''-'')),
               Print ''Step 1: AI Planning Phase''])
      (strip line) = (tr1, Inr (True, PList [points_url]))"
    and f: "execute_curl_command env
       (tr1 @ [Print (''[SUCCESS] Generated Points API URL: '' @ fmt env points_url),
               Print (NL # ''Step 2: Points API Execution''),
               Print ''Fetching location data from National Weather Service...''])
       points_url = (tr2, True, points_response)"
    and g: "get_forecast_url_from_points_response env points_response = Inr (False, msg)"
  then have "iteration env (past @ [Input input_prompt]) line =
      (tr2 @ [Print ''[SUCCESS] Received points data'',
              Print (NL # ''Step 3: Extracting Forecast URL''),
              Print (''[ERROR] Failed to extract forecast URL: '' @ fmt env msg)], Continue)"
    by (simp add: it step1_def step2_def step3_def)
  note again = loop_after_continue [OF this, of rest]
  show "run_loop env past (line # rest) =
          run_loop env
            (tr2 @ [Print ''[SUCCESS] Received points data'',
                    Print (NL # ''Step 3: Extracting Forecast URL''),
                    Print (''[ERROR] Failed to extract forecast URL: '' @ fmt env msg)])
            rest"
    by (rule again [THEN conjunct1])
  show "prefix (tr2 @ [Print ''[SUCCESS] Received points data'',
                          Print (NL # ''Step 3: Extracting Forecast URL''),
                          Print (''[ERROR] Failed to extract forecast URL: '' @ fmt env msg),
                          Input input_prompt])
             (fst (run_loop env past (line # rest)))"
    using again [THEN conjunct2] by (simp del: run_loop.simps)
next
  assume valid: "lower (strip line) \<notin> set [''quit'', ''exit'', ''q'']" "strip line \<noteq> []"
  then have it: "iteration env (past @ [Input input_prompt]) line =
      step1 env
        (past @ [Input input_prompt,
                 Print (NL # ''Starting weather analysis for '' @ [APOS] @ strip line @ [APOS] @ ''...''),
                 Print (replicate 40 (CHR ''-''))])
        (strip line)"
    by (simp add: iteration_def Let_def)
  assume p: "generate_weather_api_calls env
      (past @ [Input input_prompt,
               Print (NL # ''Starting weather analysis for '' @ [APOS] @ strip line @ [APOS] @ ''...''),
               Print (replicate 40 (CHR ''-'')),
               Print ''Step 1: AI Planning Phase''])
      (strip line) = (tr1, Inr (True, PList [points_url]))"
    and f: "execute_curl_command env
       (tr1 @ [Print (''[SUCCESS] Generated Points API URL: '' @ fmt env points_url),
               Print (NL # ''Step 2: Points API Execution''),
               Print ''Fetching location data from National Weather Service...''])
       points_url = (tr2, True, points_response)"
    and g: "get_forecast_url_from_points_response env points_response = Inr (True, forecast_url)"
    and s: "slice60 forecast_url = Inr shown"
    and f2: "execute_curl_command env
             (tr2 @ [Print ''[SUCCESS] Received points data'',
                     Print (NL # ''Step 3: Extracting Forecast URL''),
                     Print (''[SUCCESS] Forecast URL: '' @ fmt env shown @ ''...''),
                     Print (NL # ''Step 4: Forecast API Execution''),
                     Print ''Fetching weather forecast data...''])
             forecast_url = (tr3, False, msg)"
  then have "iteration env (past @ [Input input_prompt]) line =
      (tr3 @ [Print (''[ERROR] Failed to fetch forecast data: '' @ fmt env msg)], Continue)"
    by (simp add: it step1_def step2_def step3_def step4_def)
  note again = loop_after_continue [OF this, of rest]
  show "run_loop env past (line # rest) =
             run_loop env (tr3 @ [Print (''[ERROR] Failed to fetch forecast data: '' @ fmt env msg)]) rest"
    by (rule again [THEN conjunct1])
  show "prefix (tr3 @ [Print (''[ERROR] Failed to fetch forecast data: '' @ fmt env msg), Input input_prompt])
                (fst (run_loop env past (line # rest)))"
    using again [THEN conjunct2] by (simp del: run_loop.simps)
next
  assume valid: "lower (strip line) \<notin> set [''quit'', ''exit'', ''q'']" "strip line \<noteq> []"
  then have it: "iteration env (past @ [Input input_prompt]) line =
      step1 env
        (past @ [Input input_prompt,
                 Print (NL # ''Starting weather analysis for '' @ [APOS] @ strip line @ [APOS] @ ''...''),
                 Print (replicate 40 (CHR ''-''))])
        (strip line)"
    by (simp add: iteration_def Let_def)
  assume p: "generate_weather_api_calls env
      (past @ [Input input_prompt,
               Print (NL # ''Starting weather analysis for '' @ [APOS] @ strip line @ [APOS] @ ''...''),
               Print (replicate 40 (CHR ''-'')),
               Print ''Step 1: AI Planning Phase''])
      (strip line) = (tr1, Inr (True, PList [points_url]))"
    and f: "execute_curl_command env
       (tr1 @ [Print (''[SUCCESS] Generated Points API URL: '' @ fmt env points_url),
               Print (NL # ''Step 2: Points API Execution''),
               Print ''Fetching location data from National Weather Service...''])
       points_url = (tr2, True, points_response)"
    and g: "get_forecast_url_from_points_response env points_response = Inr (True, forecast_url)"
    and s: "slice60 forecast_url = Inr shown"
    and f2: "execute_curl_command env
             (tr2 @ [Print ''[SUCCESS] Received points data'',
                     Print (NL # ''Step 3: Extracting Forecast URL''),
                     Print (''[SUCCESS] Forecast URL: '' @ fmt env shown @ ''...''),
                     Print (NL # ''Step 4: Forecast API Execution''),
                     Print ''Fetching weather forecast data...''])
             forecast_url = (tr3, True, forecast_response)"
    and l: "len forecast_response = Inr n"
    and w: "process_weather_response env
                (tr3 @ [Print (''[SUCCESS] Received '' @ str_nat n @ '' characters of forecast data''),
                        Print (NL # ''Step 5: AI Analysis Phase'')])
                forecast_response (strip line) = (tr4, Inr (False, msg))"
  then have "iteration env (past @ [Input input_prompt]) line =
      (tr4 @ [Print (''[ERROR] Failed to process data: '' @ fmt env msg)], Continue)"
    by (simp add: it step1_def step2_def step3_def step4_def step5_def)
  note again = loop_after_continue [OF this, of rest]
  show "run_loop env past (line # rest) =
                run_loop env (tr4 @ [Print (''[ERROR] Failed to process data: '' @ fmt env msg)]) rest"
    by (rule again [THEN conjunct1])
  show "prefix (tr4 @ [Print (''[ERROR] Failed to process data: '' @ fmt env msg), Input input_prompt])
                   (fst (run_loop env past (line # rest)))"
    using again [THEN conjunct2] by (simp del: run_loop.simps)
qed

theorem failed_step_ends_iteration_witness:
  "step1 rambling_world [] ''Seattle'' =
     ([Print ''Step 1: AI Planning Phase'',
       Print (''AI is analyzing '' @ [APOS] @ ''Seattle'' @ [APOS] @ '' and generating weather API calls...''),
       Boto3Client,
       Converse (planner_prompt ''Seattle''),
       Print ''[ERROR] Failed to generate API calls: AI generated invalid URL: I think it is near Seattle''],
      Continue)
   \<and> step2 offline_world [] ''Seattle'' (PStr seattle_points_url) =
     ([Print (NL # ''Step 2: Points API Execution''),
       Print ''Fetching location data from National Weather Service...'',
       SubprocessRun (PStr seattle_points_url),
       Print ''[ERROR] Failed to fetch points data: Curl command failed: ''],
      Continue)
   \<and> step3 seattle_world [] ''Seattle'' (PStr ''{}'') =
     ([Print (NL # ''Step 3: Extracting Forecast URL''),
       Print (''[ERROR] Failed to extract forecast URL: Error parsing Points API response: ''
              @ [APOS] @ ''properties'' @ [APOS])],
      Continue)
   \<and> step4 forecast_down_world [] ''Seattle'' (PStr seattle_forecast_url) =
     ([Print (NL # ''Step 4: Forecast API Execution''),
       Print ''Fetching weather forecast data...'',
       SubprocessRun (PStr seattle_forecast_url),
       Print ''[ERROR] Failed to fetch forecast data: Curl command failed: ''],
      Continue)
   \<and> step5 throttled_world [Boto3Client, Converse (planner_prompt ''Seattle'')] ''Seattle'' (PStr forecast_doc) =
     ([Boto3Client, Converse (planner_prompt ''Seattle''),
       Print (NL # ''Step 5: AI Analysis Phase''),
       Print ''AI is processing weather data and creating summary...'',
       Boto3Client,
       Converse (summary_prompt forecast_doc ''Seattle''),
       Print ''[ERROR] Failed to process data: Error calling Claude: An error occurred (ThrottlingException) when calling the Converse operation: Too many requests''],
      Continue)
   \<and> iteration offline_world [] '' Seattle '' =
     ([Print (NL # ''Starting weather analysis for '' @ [APOS] @ ''Seattle'' @ [APOS] @ ''...''),
       Print (replicate 40 (CHR ''-'')),
       Print ''Step 1: AI Planning Phase'',
       Print (''AI is analyzing '' @ [APOS] @ ''Seattle'' @ [APOS] @ '' and generating weather API calls...''),
       Boto3Client,
       Converse (planner_prompt ''Seattle''),
       Print (''[SUCCESS] Generated Points API URL: '' @ seattle_points_url),
       Print (NL # ''Step 2: Points API Execution''),
       Print ''Fetching location data from National Weather Service...'',
       SubprocessRun (PStr seattle_points_url),
       Print ''[ERROR] Failed to fetch points data: Curl command failed: ''],
      Continue)
   \<and> (snd (run_weather_agent rambling_world [''Seattle'', ''quit'']) = None
    \<and> filter network_call (fst (run_weather_agent rambling_world [''Seattle'', ''quit''])) =
        [Boto3Client, Converse (planner_prompt ''Seattle'')])
   \<and> (snd (run_weather_agent offline_world [''Seattle'', ''quit'']) = None
    \<and> filter network_call (fst (run_weather_agent offline_world [''Seattle'', ''quit''])) =
        [Boto3Client, Converse (planner_prompt ''Seattle''), SubprocessRun (PStr seattle_points_url)])
   \<and> (snd (run_weather_agent html_world [''Seattle'', ''quit'']) = None
    \<and> filter network_call (fst (run_weather_agent html_world [''Seattle'', ''quit''])) =
        [Boto3Client, Converse (planner_prompt ''Seattle''), SubprocessRun (PStr seattle_points_url)])
   \<and> (snd (run_weather_agent forecast_down_world [''Seattle'', ''quit'']) = None
    \<and> filter network_call (fst (run_weather_agent forecast_down_world [''Seattle'', ''quit''])) =
        [Boto3Client, Converse (planner_prompt ''Seattle''), SubprocessRun (PStr seattle_points_url),
         SubprocessRun (PStr seattle_forecast_url)])
   \<and> (snd (run_weather_agent throttled_world [''Seattle'', ''quit'']) = None
    \<and> filter network_call (fst (run_weather_agent throttled_world [''Seattle'', ''quit''])) =
        [Boto3Client, Converse (planner_prompt ''Seattle''), SubprocessRun (PStr seattle_points_url),
         SubprocessRun (PStr seattle_forecast_url), Boto3Client,
         Converse (summary_prompt forecast_doc ''Seattle'')])"
proof -
  note claim = failed_step_ends_iteration
  have h1: "generate_weather_api_calls rambling_world ([] @ [Print ''Step 1: AI Planning Phase'']) ''Seattle'' =
      ([Print ''Step 1: AI Planning Phase'',
        Print (''AI is analyzing '' @ [APOS] @ ''Seattle'' @ [APOS] @ '' and generating weather API calls...''),
        Boto3Client, Converse (planner_prompt ''Seattle'')],
       Inr (False, PStr ''AI generated invalid URL: I think it is near Seattle''))"
    by (simp add: planner_outcome call_rambling strip_rambling points_prefix_def)
  have h2: "execute_curl_command offline_world
        ([] @ [Print (NL # ''Step 2: Points API Execution''),
               Print ''Fetching location data from National Weather Service...''])
        (PStr seattle_points_url) =
      ([Print (NL # ''Step 2: Points API Execution''),
        Print ''Fetching location data from National Weather Service...'',
        SubprocessRun (PStr seattle_points_url)],
       False, PStr ''Curl command failed: '')"
    by (simp add: execute_curl_command_def offline_world_def seattle_world_def)
  have h3: "get_forecast_url_from_points_response seattle_world (PStr ''{}'') =
      Inr (False, PStr (''Error parsing Points API response: '' @ [APOS] @ ''properties'' @ [APOS]))"
    by (simp add: get_forecast_url_from_points_response_def seattle_world_def points_doc_def and_then_def)
  have h4: "execute_curl_command forecast_down_world
        ([] @ [Print (NL # ''Step 4: Forecast API Execution''),
               Print ''Fetching weather forecast data...''])
        (PStr seattle_forecast_url) =
      ([Print (NL # ''Step 4: Forecast API Execution''),
        Print ''Fetching weather forecast data...'',
        SubprocessRun (PStr seattle_forecast_url)],
       False, PStr ''Curl command failed: '')"
    by (simp add: execute_curl_command_def forecast_down_world_def seattle_world_def seattle_urls_differ)
  have h5: "process_weather_response throttled_world
        ([Boto3Client, Converse (planner_prompt ''Seattle'')] @ [Print (NL # ''Step 5: AI Analysis Phase'')])
        (PStr forecast_doc) ''Seattle'' =
      ([Boto3Client, Converse (planner_prompt ''Seattle''),
        Print (NL # ''Step 5: AI Analysis Phase''),
        Print ''AI is processing weather data and creating summary...'',
        Boto3Client,
        Converse (summary_prompt forecast_doc ''Seattle'')],
       Inr (False, PStr ''Error calling Claude: An error occurred (ThrottlingException) when calling the Converse operation: Too many requests''))"
    by (simp add: process_weather_response_def call_claude_sonnet_with_client throttled_world_def
        seattle_world_def and_then_def)
  have h6a: "generate_weather_api_calls offline_world
        ([] @ [Print (NL # ''Starting weather analysis for '' @ [APOS] @ strip '' Seattle '' @ [APOS] @ ''...''),
               Print (replicate 40 (CHR ''-'')),
               Print ''Step 1: AI Planning Phase''])
        (strip '' Seattle '') =
      ([Print (NL # ''Starting weather analysis for '' @ [APOS] @ ''Seattle'' @ [APOS] @ ''...''),
        Print (replicate 40 (CHR ''-'')),
        Print ''Step 1: AI Planning Phase'',
        Print (''AI is analyzing '' @ [APOS] @ ''Seattle'' @ [APOS] @ '' and generating weather API calls...''),
        Boto3Client, Converse (planner_prompt ''Seattle'')],
       Inr (True, PList [PStr seattle_points_url]))"
    by (simp add: strip_padded_seattle planner_outcome call_claude_sonnet_with_client offline_world_def
        seattle_world_def and_then_def sample_facts)
  have h6b: "execute_curl_command offline_world
        ([Print (NL # ''Starting weather analysis for '' @ [APOS] @ ''Seattle'' @ [APOS] @ ''...''),
          Print (replicate 40 (CHR ''-'')),
          Print ''Step 1: AI Planning Phase'',
          Print (''AI is analyzing '' @ [APOS] @ ''Seattle'' @ [APOS] @ '' and generating weather API calls...''),
          Boto3Client, Converse (planner_prompt ''Seattle'')]
         @ [Print (''[SUCCESS] Generated Points API URL: '' @ fmt offline_world (PStr seattle_points_url)),
            Print (NL # ''Step 2: Points API Execution''),
            Print ''Fetching location data from National Weather Service...''])
        (PStr seattle_points_url) =
      ([Print (NL # ''Starting weather analysis for '' @ [APOS] @ ''Seattle'' @ [APOS] @ ''...''),
        Print (replicate 40 (CHR ''-'')),
        Print ''Step 1: AI Planning Phase'',
        Print (''AI is analyzing '' @ [APOS] @ ''Seattle'' @ [APOS] @ '' and generating weather API calls...''),
        Boto3Client, Converse (planner_prompt ''Seattle''),
        Print (''[SUCCESS] Generated Points API URL: '' @ seattle_points_url),
        Print (NL # ''Step 2: Points API Execution''),
        Print ''Fetching location data from National Weather Service...'',
        SubprocessRun (PStr seattle_points_url)],
       False, PStr ''Curl command failed: '')"
    by (simp add: execute_curl_command_def offline_world_def seattle_world_def)
  have s1: "step1 rambling_world [] ''Seattle'' =
     ([Print ''Step 1: AI Planning Phase'',
       Print (''AI is analyzing '' @ [APOS] @ ''Seattle'' @ [APOS] @ '' and generating weather API calls...''),
       Boto3Client,
       Converse (planner_prompt ''Seattle''),
       Print ''[ERROR] Failed to generate API calls: AI generated invalid URL: I think it is near Seattle''],
      Continue)"
    using claim [THEN conjunct1, rule_format, OF h1] by simp
  have s2: "step2 offline_world [] ''Seattle'' (PStr seattle_points_url) =
     ([Print (NL # ''Step 2: Points API Execution''),
       Print ''Fetching location data from National Weather Service...'',
       SubprocessRun (PStr seattle_points_url),
       Print ''[ERROR] Failed to fetch points data: Curl command failed: ''],
      Continue)"
    using claim [THEN conjunct2, THEN conjunct1, rule_format, OF h2] by simp
  have s3: "step3 seattle_world [] ''Seattle'' (PStr ''{}'') =
     ([Print (NL # ''Step 3: Extracting Forecast URL''),
       Print (''[ERROR] Failed to extract forecast URL: Error parsing Points API response: ''
              @ [APOS] @ ''properties'' @ [APOS])],
      Continue)"
    using claim [THEN conjunct2, THEN conjunct2, THEN conjunct1, rule_format, OF h3, of "[]" "''Seattle''"]
    by simp
  have s4: "step4 forecast_down_world [] ''Seattle'' (PStr seattle_forecast_url) =
     ([Print (NL # ''Step 4: Forecast API Execution''),
       Print ''Fetching weather forecast data...'',
       SubprocessRun (PStr seattle_forecast_url),
       Print ''[ERROR] Failed to fetch forecast data: Curl command failed: ''],
      Continue)"
    using claim [THEN conjunct2, THEN conjunct2, THEN conjunct2, THEN conjunct1, rule_format, OF h4]
    by simp
  have s5: "step5 throttled_world [Boto3Client, Converse (planner_prompt ''Seattle'')] ''Seattle'' (PStr forecast_doc) =
     ([Boto3Client, Converse (planner_prompt ''Seattle''),
       Print (NL # ''Step 5: AI Analysis Phase''),
       Print ''AI is processing weather data and creating summary...'',
       Boto3Client,
       Converse (summary_prompt forecast_doc ''Seattle''),
       Print ''[ERROR] Failed to process data: Error calling Claude: An error occurred (ThrottlingException) when calling the Converse operation: Too many requests''],
      Continue)"
    using claim [THEN conjunct2, THEN conjunct2, THEN conjunct2, THEN conjunct2, THEN conjunct1,
        rule_format, OF h5]
    by simp
  have s6: "iteration offline_world [] '' Seattle '' =
     ([Print (NL # ''Starting weather analysis for '' @ [APOS] @ ''Seattle'' @ [APOS] @ ''...''),
       Print (replicate 40 (CHR ''-'')),
       Print ''Step 1: AI Planning Phase'',
       Print (''AI is analyzing '' @ [APOS] @ ''Seattle'' @ [APOS] @ '' and generating weather API calls...''),
       Boto3Client,
       Converse (planner_prompt ''Seattle''),
       Print (''[SUCCESS] Generated Points API URL: '' @ seattle_points_url),
       Print (NL # ''Step 2: Points API Execution''),
       Print ''Fetching location data from National Weather Service...'',
       SubprocessRun (PStr seattle_points_url),
       Print ''[ERROR] Failed to fetch points data: Curl command failed: ''],
      Continue)"
    using claim [THEN conjunct2, THEN conjunct2, THEN conjunct2, THEN conjunct2, THEN conjunct2,
        THEN conjunct1, rule_format, OF conjI [OF conjunct1 [OF padded_seattle_is_a_location]
          conjI [OF conjunct2 [OF padded_seattle_is_a_location] conjI [OF h6a h6b]]]]
    by simp
  note loop = claim [THEN conjunct2, THEN conjunct2, THEN conjunct2, THEN conjunct2, THEN conjunct2,
      THEN conjunct2, THEN mp]
  let ?t0 = "banner @ [Input input_prompt,
      Print (NL # ''Starting weather analysis for '' @ [APOS] @ strip ''Seattle'' @ [APOS] @ ''...''),
      Print (replicate 40 (CHR ''-'')),
      Print ''Step 1: AI Planning Phase'']"
  let ?t1 = "?t0 @ [Print (''AI is analyzing '' @ [APOS] @ ''Seattle'' @ [APOS] @ '' and generating weather API calls...''),
      Boto3Client, Converse (planner_prompt ''Seattle'')]"
  let ?pre2 = "\<lambda>w. ?t1 @ [Print (''[SUCCESS] Generated Points API URL: '' @ fmt w (PStr seattle_points_url)),
      Print (NL # ''Step 2: Points API Execution''),
      Print ''Fetching location data from National Weather Service...'']"
  let ?t2 = "\<lambda>w. ?pre2 w @ [SubprocessRun (PStr seattle_points_url)]"
  let ?pre4 = "\<lambda>w. ?t2 w @ [Print ''[SUCCESS] Received points data'',
      Print (NL # ''Step 3: Extracting Forecast URL''),
      Print (''[SUCCESS] Forecast URL: '' @ fmt w (PStr seattle_forecast_url) @ ''...''),
      Print (NL # ''Step 4: Forecast API Execution''),
      Print ''Fetching weather forecast data...'']"
  let ?t3 = "\<lambda>w. ?pre4 w @ [SubprocessRun (PStr seattle_forecast_url)]"
  let ?pre5 = "\<lambda>w. ?t3 w @ [Print (''[SUCCESS] Received '' @ str_nat 31 @ '' characters of forecast data''),
      Print (NL # ''Step 5: AI Analysis Phase'')]"
  let ?t4 = "\<lambda>w. ?pre5 w @ [Print ''AI is processing weather data and creating summary...'',
      Boto3Client, Converse (summary_prompt forecast_doc ''Seattle'')]"
  have valid: "lower (strip ''Seattle'') \<notin> set [''quit'', ''exit'', ''q''] \<and> strip ''Seattle'' \<noteq> []"
    by (simp add: sample_lines)
  have slice: "slice60 (PStr seattle_forecast_url) = Inr (PStr seattle_forecast_url)"
    by (simp add: take_60_seattle_forecast_url)
  have len31: "len (PStr forecast_doc) = Inr 31"
    by (simp add: length_forecast_doc)

  have p1: "generate_weather_api_calls rambling_world ?t0 (strip ''Seattle'') =
      (?t1, Inr (False, PStr ''AI generated invalid URL: I think it is near Seattle''))"
    by (simp add: strip_seattle planner_outcome call_rambling strip_rambling points_prefix_def)
  note loop [OF valid, THEN conjunct1, THEN mp, OF p1, THEN conjunct1, of "[''quit'']"]
  then have r1: "run_weather_agent rambling_world [''Seattle'', ''quit''] =
      run_loop rambling_world
        (?t1 @ [Print (''[ERROR] Failed to generate API calls: ''
                       @ fmt rambling_world (PStr ''AI generated invalid URL: I think it is near Seattle''))])
        [''quit'']"
    by (simp only: run_weather_agent_def)
  have w1: "snd (run_weather_agent rambling_world [''Seattle'', ''quit'']) = None
    \<and> filter network_call (fst (run_weather_agent rambling_world [''Seattle'', ''quit''])) =
        [Boto3Client, Converse (planner_prompt ''Seattle'')]"
    unfolding r1 by (simp add: iteration_def sample_lines banner_def)

  have p2: "generate_weather_api_calls offline_world ?t0 (strip ''Seattle'') =
      (?t1, Inr (True, PList [PStr seattle_points_url]))"
    by (simp add: strip_seattle planner_outcome call_claude_sonnet_with_client offline_world_def
        seattle_world_def and_then_def sample_facts banner_def)
  have f2: "execute_curl_command offline_world (?pre2 offline_world) (PStr seattle_points_url) =
      (?t2 offline_world, False, PStr ''Curl command failed: '')"
    by (simp add: execute_curl_command_def offline_world_def seattle_world_def)
  note loop [OF valid, THEN conjunct2, THEN mp, OF p2, THEN conjunct1, THEN mp, OF f2,
      THEN conjunct2, THEN conjunct1, of "[''quit'']"]
  then have r2: "run_weather_agent offline_world [''Seattle'', ''quit''] =
      run_loop offline_world
        (?t2 offline_world @ [Print (''[ERROR] Failed to fetch points data: ''
                       @ fmt offline_world (PStr ''Curl command failed: ''))])
        [''quit'']"
    by (simp only: run_weather_agent_def)
  have w2: "snd (run_weather_agent offline_world [''Seattle'', ''quit'']) = None
    \<and> filter network_call (fst (run_weather_agent offline_world [''Seattle'', ''quit''])) =
        [Boto3Client, Converse (planner_prompt ''Seattle''), SubprocessRun (PStr seattle_points_url)]"
    unfolding r2 by (simp add: iteration_def sample_lines banner_def)

  have p3: "generate_weather_api_calls html_world ?t0 (strip ''Seattle'') =
      (?t1, Inr (True, PList [PStr seattle_points_url]))"
    by (simp add: strip_seattle planner_outcome call_claude_sonnet_with_client html_world_def
        seattle_world_def and_then_def sample_facts banner_def)
  have f3: "execute_curl_command html_world (?pre2 html_world) (PStr seattle_points_url) =
      (?t2 html_world, True, PStr ''<html>Service Unavailable</html>'')"
    by (simp add: execute_curl_command_def html_world_def seattle_world_def)
  have g3: "get_forecast_url_from_points_response html_world (PStr ''<html>Service Unavailable</html>'') =
      Inr (False, PStr ''Error parsing Points API response: Expecting value: line 1 column 1 (char 0)'')"
    by (simp add: get_forecast_url_from_points_response_def html_world_def seattle_world_def
        points_doc_def and_then_def)
  note loop [OF valid, THEN conjunct2, THEN mp, OF p3, THEN conjunct2, THEN mp, OF f3,
      THEN conjunct1, THEN mp, OF g3, THEN conjunct1, of "[''quit'']"]
  then have r3: "run_weather_agent html_world [''Seattle'', ''quit''] =
      run_loop html_world
        (?t2 html_world @ [Print ''[SUCCESS] Received points data'',
           Print (NL # ''Step 3: Extracting Forecast URL''),
           Print (''[ERROR] Failed to extract forecast URL: ''
                  @ fmt html_world (PStr ''Error parsing Points API response: Expecting value: line 1 column 1 (char 0)''))])
        [''quit'']"
    by (simp only: run_weather_agent_def)
  have w3: "snd (run_weather_agent html_world [''Seattle'', ''quit'']) = None
    \<and> filter network_call (fst (run_weather_agent html_world [''Seattle'', ''quit''])) =
        [Boto3Client, Converse (planner_prompt ''Seattle''), SubprocessRun (PStr seattle_points_url)]"
    unfolding r3 by (simp add: iteration_def sample_lines banner_def)

  have p4: "generate_weather_api_calls forecast_down_world ?t0 (strip ''Seattle'') =
      (?t1, Inr (True, PList [PStr seattle_points_url]))"
    by (simp add: strip_seattle planner_outcome call_claude_sonnet_with_client forecast_down_world_def
        seattle_world_def and_then_def sample_facts banner_def)
  have f4: "execute_curl_command forecast_down_world (?pre2 forecast_down_world) (PStr seattle_points_url) =
      (?t2 forecast_down_world, True, PStr points_doc)"
    by (simp add: execute_curl_command_def forecast_down_world_def seattle_world_def)
  have g4: "get_forecast_url_from_points_response forecast_down_world (PStr points_doc) =
      Inr (True, PStr seattle_forecast_url)"
    by (simp add: get_forecast_url_from_points_response_def forecast_down_world_def seattle_world_def
        and_then_def)
  have fc4: "execute_curl_command forecast_down_world (?pre4 forecast_down_world) (PStr seattle_forecast_url) =
      (?t3 forecast_down_world, False, PStr ''Curl command failed: '')"
    by (simp add: execute_curl_command_def forecast_down_world_def seattle_world_def seattle_urls_differ)
  note loop [OF valid, THEN conjunct2, THEN mp, OF p4, THEN conjunct2, THEN mp, OF f4,
      THEN conjunct2, THEN mp, OF conjI [OF g4 slice], THEN conjunct1, THEN mp, OF fc4,
      THEN conjunct1, of "[''quit'']"]
  then have r4: "run_weather_agent forecast_down_world [''Seattle'', ''quit''] =
      run_loop forecast_down_world
        (?t3 forecast_down_world @ [Print (''[ERROR] Failed to fetch forecast data: ''
                       @ fmt forecast_down_world (PStr ''Curl command failed: ''))])
        [''quit'']"
    by (simp only: run_weather_agent_def)
  have w4: "snd (run_weather_agent forecast_down_world [''Seattle'', ''quit'']) = None
    \<and> filter network_call (fst (run_weather_agent forecast_down_world [''Seattle'', ''quit''])) =
        [Boto3Client, Converse (planner_prompt ''Seattle''), SubprocessRun (PStr seattle_points_url),
         SubprocessRun (PStr seattle_forecast_url)]"
    unfolding r4 by (simp add: iteration_def sample_lines banner_def)

  have p5: "generate_weather_api_calls throttled_world ?t0 (strip ''Seattle'') =
      (?t1, Inr (True, PList [PStr seattle_points_url]))"
    by (simp add: strip_seattle planner_outcome call_claude_sonnet_with_client throttled_world_def
        seattle_world_def and_then_def sample_facts banner_def)
  have f5: "execute_curl_command throttled_world (?pre2 throttled_world) (PStr seattle_points_url) =
      (?t2 throttled_world, True, PStr points_doc)"
    by (simp add: execute_curl_command_def throttled_world_def seattle_world_def)
  have g5: "get_forecast_url_from_points_response throttled_world (PStr points_doc) =
      Inr (True, PStr seattle_forecast_url)"
    by (simp add: get_forecast_url_from_points_response_def throttled_world_def seattle_world_def
        and_then_def)
  have fc5: "execute_curl_command throttled_world (?pre4 throttled_world) (PStr seattle_forecast_url) =
      (?t3 throttled_world, True, PStr forecast_doc)"
    by (simp add: execute_curl_command_def throttled_world_def seattle_world_def seattle_urls_differ)
  have sum5: "process_weather_response throttled_world (?pre5 throttled_world) (PStr forecast_doc) (strip ''Seattle'') =
      (?t4 throttled_world,
       Inr (False, PStr ''Error calling Claude: An error occurred (ThrottlingException) when calling the Converse operation: Too many requests''))"
    by (simp add: strip_seattle process_weather_response_def call_claude_sonnet_with_client
        throttled_world_def seattle_world_def and_then_def banner_def)
  note loop [OF valid, THEN conjunct2, THEN mp, OF p5, THEN conjunct2, THEN mp, OF f5,
      THEN conjunct2, THEN mp, OF conjI [OF g5 slice], THEN conjunct2, THEN mp, OF conjI [OF fc5 len31],
      THEN mp, OF sum5, THEN conjunct1, of "[''quit'']"]
  then have r5: "run_weather_agent throttled_world [''Seattle'', ''quit''] =
      run_loop throttled_world
        (?t4 throttled_world @ [Print (''[ERROR] Failed to process data: ''
           @ fmt throttled_world (PStr ''Error calling Claude: An error occurred (ThrottlingException) when calling the Converse operation: Too many requests''))])
        [''quit'']"
    by (simp only: run_weather_agent_def)
  have w5: "snd (run_weather_agent throttled_world [''Seattle'', ''quit'']) = None
    \<and> filter network_call (fst (run_weather_agent throttled_world [''Seattle'', ''quit''])) =
        [Boto3Client, Converse (planner_prompt ''Seattle''), SubprocessRun (PStr seattle_points_url),
         SubprocessRun (PStr seattle_forecast_url), Boto3Client,
         Converse (summary_prompt forecast_doc ''Seattle'')]"
    unfolding r5 by (simp add: iteration_def sample_lines banner_def)
  from s1 s2 s3 s4 s5 s6 w1 w2 w3 w4 w5 show ?thesis
    by blast
qed

text \<open>
  C8. For every input line that is \<^verbatim>\<open>quit\<close>, \<^verbatim>\<open>exit\<close> or \<^verbatim>\<open>q\<close> up to the
  case of its letters, the pass prints the farewell line and ends in \<^verbatim>\<open>break\<close>: the
  loop returns without reading the lines that follow, and when this is the first line the
  whole run makes no model call and runs no fetch command.
\<close>

theorem quit_command_ends_loop:
  "lower line \<in> set [''quit'', ''exit'', ''q''] \<Longrightarrow>
     iteration env tr line = (tr @ [Print ''Thanks for using the Weather Agent!''], Break)
     \<and> run_loop env tr (line # rest) =
         (tr @ [Input input_prompt, Print ''Thanks for using the Weather Agent!''], None)
     \<and> run_weather_agent env (line # rest) =
         (banner @ [Input input_prompt, Print ''Thanks for using the Weather Agent!''], None)
     \<and> filter network_call (fst (run_weather_agent env (line # rest))) = []"
proof -
  assume q: "lower line \<in> set [''quit'', ''exit'', ''q'']"
  then have "strip line = line"
    by (rule quit_word_unstripped)
  with q have it: "iteration env tr line = (tr @ [Print ''Thanks for using the Weather Agent!''], Break)" for tr
    by (simp add: iteration_def)
  then show ?thesis
    by (simp add: run_weather_agent_def banner_def)
qed

theorem quit_command_ends_loop_witness:
  "iteration seattle_world [] ''Quit'' = ([Print ''Thanks for using the Weather Agent!''], Break)
   \<and> run_weather_agent seattle_world [''EXIT'', ''Seattle''] =
       (banner @ [Input input_prompt, Print ''Thanks for using the Weather Agent!''], None)
   \<and> filter network_call (fst (run_weather_agent seattle_world [''q''])) = []"
proof -
  have 1: "lower ''Quit'' \<in> set [''quit'', ''exit'', ''q'']"
    by code_simp
  have 2: "lower ''EXIT'' \<in> set [''quit'', ''exit'', ''q'']"
    by code_simp
  have 3: "lower ''q'' \<in> set [''quit'', ''exit'', ''q'']"
    by code_simp
  show ?thesis
    using quit_command_ends_loop [OF 1, of seattle_world "[]" "[]"]
      quit_command_ends_loop [OF 2, of seattle_world "[]" "[''Seattle'']"]
      quit_command_ends_loop [OF 3, of seattle_world "[]" "[]"]
    by (simp del: run_loop.simps add: banner_def)
qed

text \<open>
  C9. For the empty input line, the pass prints the error line and ends in
  \<^verbatim>\<open>continue\<close>; it makes no model call and runs no fetch command, and the next event
  of the loop is the prompt for the next line.
\<close>

theorem empty_input_reprompts:
  "iteration env tr [] = (tr @ [Print ''[ERROR] Please enter a location name or description.''], Continue)
   \<and> run_loop env tr ([] # rest) =
       run_loop env (tr @ [Input input_prompt, Print ''[ERROR] Please enter a location name or description.'']) rest
   \<and> prefix (tr @ [Input input_prompt, Print ''[ERROR] Please enter a location name or description.'',
                   Input input_prompt])
        (fst (run_loop env tr ([] # rest)))
   \<and> filter network_call (drop (length tr) (fst (iteration env tr []))) = []"
proof -
  have it: "iteration env tr [] = (tr @ [Print ''[ERROR] Please enter a location name or description.''], Continue)" for tr
    by (simp add: iteration_def strip_def lower_def)
  have "prefix ((tr @ [Input input_prompt, Print ''[ERROR] Please enter a location name or description.'']) @ [Input input_prompt])
          (fst (run_loop env (tr @ [Input input_prompt, Print ''[ERROR] Please enter a location name or description.'']) rest))"
    by (rule run_loop_prompts_first)
  with it show ?thesis
    by simp
qed

text \<open>
  C10. The orchestrator strips the line before every check. A pass depends on the line
  only through the stripped line. A line of whitespace only is treated as the empty line:
  one error line, no other event, and the loop prompts again. A line that strips to
  \<^verbatim>\<open>quit\<close>, \<^verbatim>\<open>exit\<close> or \<^verbatim>\<open>q\<close> up to case, such as \<^verbatim>\<open>  QUIT  \<close>, ends the loop
  after the farewell line, without reading further lines. For every other line the steps
  are run with the stripped line as the location: the planner is called with it and its
  prompt is built from it, and along a pass in which every step succeeds the summary
  generator is called with it, its prompt is built from it, and the closing line prints
  it; the loop then goes on with the remaining lines.
\<close>

theorem input_is_stripped_first:
  "iteration env tr line = iteration env tr (strip line)
   \<and> ((\<forall>c \<in> set line. isspace c) \<longrightarrow>
        iteration env tr line = iteration env tr []
        \<and> iteration env tr line =
            (tr @ [Print ''[ERROR] Please enter a location name or description.''], Continue))
   \<and> iteration env tr ''  QUIT  '' = (tr @ [Print ''Thanks for using the Weather Agent!''], Break)
   \<and> (lower (strip line) \<notin> set [''quit'', ''exit'', ''q''] \<and> strip line \<noteq> [] \<longrightarrow>
        iteration env tr line =
          step1 env
            (tr @ [Print (NL # ''Starting weather analysis for '' @ [APOS] @ strip line @ [APOS] @ ''...''),
                   Print (replicate 40 (CHR ''-''))])
            (strip line))
   \<and> ((\<forall>c \<in> set line. isspace c) \<longrightarrow>
        run_loop env past (line # rest) =
          run_loop env
            (past @ [Input input_prompt, Print ''[ERROR] Please enter a location name or description.''])
            rest
        \<and> prefix (past @ [Input input_prompt,
                          Print ''[ERROR] Please enter a location name or description.'',
                          Input input_prompt])
             (fst (run_loop env past (line # rest))))
   \<and> (lower (strip line) \<in> set [''quit'', ''exit'', ''q''] \<longrightarrow>
        run_loop env past (line # rest) =
          (past @ [Input input_prompt, Print ''Thanks for using the Weather Agent!''], None))
   \<and> run_loop env past (''  QUIT  '' # rest) =
        (past @ [Input input_prompt, Print ''Thanks for using the Weather Agent!''], None)
   \<and> (lower (strip line) \<notin> set [''quit'', ''exit'', ''q''] \<and> strip line \<noteq> []
       \<and> generate_weather_api_calls env
            (past @ [Input input_prompt,
                     Print (NL # ''Starting weather analysis for '' @ [APOS] @ strip line @ [APOS] @ ''...''),
                     Print (replicate 40 (CHR ''-'')),
                     Print ''Step 1: AI Planning Phase''])
            (strip line) = (tr1, Inr (True, PList [points_url]))
       \<and> execute_curl_command env
            (tr1 @ [Print (''[SUCCESS] Generated Points API URL: '' @ fmt env points_url),
                    Print (NL # ''Step 2: Points API Execution''),
                    Print ''Fetching location data from National Weather Service...''])
            points_url = (tr2, True, points_response)
       \<and> get_forecast_url_from_points_response env points_response = Inr (True, forecast_url)
       \<and> slice60 forecast_url = Inr shown
       \<and> execute_curl_command env
            (tr2 @ [Print ''[SUCCESS] Received points data'',
                    Print (NL # ''Step 3: Extracting Forecast URL''),
                    Print (''[SUCCESS] Forecast URL: '' @ fmt env shown @ ''...''),
                    Print (NL # ''Step 4: Forecast API Execution''),
                    Print ''Fetching weather forecast data...''])
            forecast_url = (tr3, True, forecast_response)
       \<and> len forecast_response = Inr n
       \<and> process_weather_response env
            (tr3 @ [Print (''[SUCCESS] Received '' @ str_nat n @ '' characters of forecast data''),
                    Print (NL # ''Step 5: AI Analysis Phase'')])
            forecast_response (strip line) = (tr4, Inr (True, summary)) \<longrightarrow>
       tr1 = past @ [Input input_prompt,
                     Print (NL # ''Starting weather analysis for '' @ [APOS] @ strip line @ [APOS] @ ''...''),
                     Print (replicate 40 (CHR ''-'')),
                     Print ''Step 1: AI Planning Phase'',
                     Print (''AI is analyzing '' @ [APOS] @ strip line @ [APOS] @ '' and generating weather API calls...''),
                     Boto3Client,
                     Converse (planner_prompt (strip line))]
       \<and> tr4 = tr3 @ [Print (''[SUCCESS] Received '' @ str_nat n @ '' characters of forecast data''),
                      Print (NL # ''Step 5: AI Analysis Phase''),
                      Print ''AI is processing weather data and creating summary...'',
                      Boto3Client,
                      Converse (summary_prompt (fmt env forecast_response) (strip line))]
       \<and> run_loop env past (line # rest) =
           run_loop env
             (tr4 @ [Print (NL # ''Step 6: Weather Forecast''),
                     Print (replicate 60 (CHR ''='')),
                     Print (fmt env summary),
                     Print (replicate 60 (CHR ''='')),
                     Print (NL # ''[SUCCESS] Weather analysis complete for '' @ [APOS] @ strip line @ [APOS] @ ''!'')])
             rest)"
proof (intro conjI impI; (elim conjE)?)
  show "iteration env tr line = iteration env tr (strip line)"
    by (simp add: iteration_def strip_strip)
next
  assume sp: "\<forall>c \<in> set line. isspace c"
  then have e: "strip line = []"
    by (rule strip_all_space)
  have e0: "strip [] = []"
    by (simp add: strip_def)
  show "iteration env tr line = iteration env tr []"
    by (simp add: iteration_def e e0)
  show "iteration env tr line =
      (tr @ [Print ''[ERROR] Please enter a location name or description.''], Continue)"
    by (simp add: iteration_def e lower_def)
  have "iteration env (past @ [Input input_prompt]) line =
      ((past @ [Input input_prompt]) @ [Print ''[ERROR] Please enter a location name or description.''], Continue)"
    by (simp add: iteration_def e lower_def)
  note again = loop_after_continue [OF this, of rest]
  show "run_loop env past (line # rest) =
          run_loop env
            (past @ [Input input_prompt, Print ''[ERROR] Please enter a location name or description.''])
            rest"
    using again [THEN conjunct1] by (simp del: run_loop.simps)
  show "prefix (past @ [Input input_prompt,
                          Print ''[ERROR] Please enter a location name or description.'',
                          Input input_prompt])
             (fst (run_loop env past (line # rest)))"
    using again [THEN conjunct2] by (simp del: run_loop.simps)
next
  have q: "lower (strip ''  QUIT  '') = ''quit''"
    by code_simp
  then show "iteration env tr ''  QUIT  '' = (tr @ [Print ''Thanks for using the Weather Agent!''], Break)"
    by (simp add: iteration_def)
  from q have "iteration env (past @ [Input input_prompt]) ''  QUIT  '' =
      ((past @ [Input input_prompt]) @ [Print ''Thanks for using the Weather Agent!''], Break)"
    by (simp add: iteration_def)
  from loop_after_break [OF this, of rest]
  show "run_loop env past (''  QUIT  '' # rest) =
        (past @ [Input input_prompt, Print ''Thanks for using the Weather Agent!''], None)"
    by (simp del: run_loop.simps)
next
  assume "lower (strip line) \<notin> set [''quit'', ''exit'', ''q'']" and "strip line \<noteq> []"
  then show "iteration env tr line =
          step1 env
            (tr @ [Print (NL # ''Starting weather analysis for '' @ [APOS] @ strip line @ [APOS] @ ''...''),
                   Print (replicate 40 (CHR ''-''))])
            (strip line)"
    by (simp add: iteration_def Let_def)
next
  assume "lower (strip line) \<in> set [''quit'', ''exit'', ''q'']"
  then have "iteration env (past @ [Input input_prompt]) line =
      ((past @ [Input input_prompt]) @ [Print ''Thanks for using the Weather Agent!''], Break)"
    by (simp add: iteration_def)
  from loop_after_break [OF this, of rest]
  show "run_loop env past (line # rest) =
          (past @ [Input input_prompt, Print ''Thanks for using the Weather Agent!''], None)"
    by (simp del: run_loop.simps)
next
  assume valid: "lower (strip line) \<notin> set [''quit'', ''exit'', ''q'']" "strip line \<noteq> []"
    and p: "generate_weather_api_calls env
            (past @ [Input input_prompt,
                     Print (NL # ''Starting weather analysis for '' @ [APOS] @ strip line @ [APOS] @ ''...''),
                     Print (replicate 40 (CHR ''-'')),
                     Print ''Step 1: AI Planning Phase''])
            (strip line) = (tr1, Inr (True, PList [points_url]))"
    and f: "execute_curl_command env
            (tr1 @ [Print (''[SUCCESS] Generated Points API URL: '' @ fmt env points_url),
                    Print (NL # ''Step 2: Points API Execution''),
                    Print ''Fetching location data from National Weather Service...''])
            points_url = (tr2, True, points_response)"
    and g: "get_forecast_url_from_points_response env points_response = Inr (True, forecast_url)"
    and s: "slice60 forecast_url = Inr shown"
    and f2: "execute_curl_command env
            (tr2 @ [Print ''[SUCCESS] Received points data'',
                    Print (NL # ''Step 3: Extracting Forecast URL''),
                    Print (''[SUCCESS] Forecast URL: '' @ fmt env shown @ ''...''),
                    Print (NL # ''Step 4: Forecast API Execution''),
                    Print ''Fetching weather forecast data...''])
            forecast_url = (tr3, True, forecast_response)"
    and l: "len forecast_response = Inr n"
    and w: "process_weather_response env
            (tr3 @ [Print (''[SUCCESS] Received '' @ str_nat n @ '' characters of forecast data''),
                    Print (NL # ''Step 5: AI Analysis Phase'')])
            forecast_response (strip line) = (tr4, Inr (True, summary))"
  from planner_returned_trace [OF p]
  show "tr1 = past @ [Input input_prompt,
                     Print (NL # ''Starting weather analysis for '' @ [APOS] @ strip line @ [APOS] @ ''...''),
                     Print (replicate 40 (CHR ''-'')),
                     Print ''Step 1: AI Planning Phase'',
                     Print (''AI is analyzing '' @ [APOS] @ strip line @ [APOS] @ '' and generating weather API calls...''),
                     Boto3Client,
                     Converse (planner_prompt (strip line))]"
    by simp
  from summary_returned_trace [OF w]
  show "tr4 = tr3 @ [Print (''[SUCCESS] Received '' @ str_nat n @ '' characters of forecast data''),
                      Print (NL # ''Step 5: AI Analysis Phase''),
                      Print ''AI is processing weather data and creating summary...'',
                      Boto3Client,
                      Converse (summary_prompt (fmt env forecast_response) (strip line))]"
    by simp
  from valid p f g s f2 l w
  have "iteration env (past @ [Input input_prompt]) line =
      (tr4 @ [Print (NL # ''Step 6: Weather Forecast''),
              Print (replicate 60 (CHR ''='')),
              Print (fmt env summary),
              Print (replicate 60 (CHR ''='')),
              Print (NL # ''[SUCCESS] Weather analysis complete for '' @ [APOS] @ strip line @ [APOS] @ ''!'')],
       Continue)"
    by (simp add: iteration_def step1_def step2_def step3_def step4_def step5_def step6_def Let_def)
  from loop_after_continue [OF this, of rest, THEN conjunct1]
  show "run_loop env past (line # rest) =
           run_loop env
             (tr4 @ [Print (NL # ''Step 6: Weather Forecast''),
                     Print (replicate 60 (CHR ''='')),
                     Print (fmt env summary),
                     Print (replicate 60 (CHR ''='')),
                     Print (NL # ''[SUCCESS] Weather analysis complete for '' @ [APOS] @ strip line @ [APOS] @ ''!'')])
             rest"
    by (simp del: run_loop.simps)
qed

theorem input_is_stripped_first_witness:
  "iteration seattle_world [] [CHR '' '', CHR 0x09, CHR '' ''] =
     ([Print ''[ERROR] Please enter a location name or description.''], Continue)
   \<and> iteration seattle_world [] '' Seattle '' = iteration seattle_world [] ''Seattle''
   \<and> iteration seattle_world [] '' Seattle '' =
       step1 seattle_world
         [Print (NL # ''Starting weather analysis for '' @ [APOS] @ ''Seattle'' @ [APOS] @ ''...''),
          Print (replicate 40 (CHR ''-''))]
         ''Seattle''
   \<and> run_weather_agent seattle_world [[CHR '' '', CHR 0x09, CHR '' ''], ''quit''] =
       (banner @ [Input input_prompt,
                  Print ''[ERROR] Please enter a location name or description.'',
                  Input input_prompt,
                  Print ''Thanks for using the Weather Agent!''],
        None)
   \<and> run_weather_agent seattle_world ['' exit '', ''Seattle''] =
       (banner @ [Input input_prompt, Print ''Thanks for using the Weather Agent!''], None)
   \<and> snd (run_weather_agent seattle_world ['' Seattle '', ''quit'']) = None
   \<and> filter network_call (fst (run_weather_agent seattle_world ['' Seattle '', ''quit''])) =
       [Boto3Client, Converse (planner_prompt ''Seattle''), SubprocessRun (PStr seattle_points_url),
        SubprocessRun (PStr seattle_forecast_url), Boto3Client,
        Converse (summary_prompt forecast_doc ''Seattle'')]"
proof -
  note claim = input_is_stripped_first
  have blank: "\<forall>c \<in> set [CHR '' '', CHR 0x09, CHR '' '']. isspace c"
    by (simp add: isspace_def)
  have a: "iteration seattle_world [] [CHR '' '', CHR 0x09, CHR '' ''] =
     ([Print ''[ERROR] Please enter a location name or description.''], Continue)"
    using claim [THEN conjunct2, THEN conjunct1, THEN mp, OF blank, THEN conjunct2, of seattle_world "[]"]
    by simp
  have b: "iteration seattle_world [] '' Seattle '' = iteration seattle_world [] ''Seattle''"
    using claim [THEN conjunct1, of seattle_world "[]" "'' Seattle ''"]
    by (simp only: strip_padded_seattle)
  have c: "iteration seattle_world [] '' Seattle '' =
       step1 seattle_world
         [Print (NL # ''Starting weather analysis for '' @ [APOS] @ ''Seattle'' @ [APOS] @ ''...''),
          Print (replicate 40 (CHR ''-''))]
         ''Seattle''"
    using claim [THEN conjunct2, THEN conjunct2, THEN conjunct2, THEN conjunct1, THEN mp,
        OF padded_seattle_is_a_location, of seattle_world "[]"]
    by (simp add: strip_padded_seattle)
  note claim [THEN conjunct2, THEN conjunct2, THEN conjunct2, THEN conjunct2, THEN conjunct1, THEN mp,
      OF blank, THEN conjunct1, of seattle_world banner "[''quit'']"]
  then have d0: "run_weather_agent seattle_world [[CHR '' '', CHR 0x09, CHR '' ''], ''quit''] =
      run_loop seattle_world
        (banner @ [Input input_prompt, Print ''[ERROR] Please enter a location name or description.''])
        [''quit'']"
    by (simp only: run_weather_agent_def)
  have d: "run_weather_agent seattle_world [[CHR '' '', CHR 0x09, CHR '' ''], ''quit''] =
       (banner @ [Input input_prompt,
                  Print ''[ERROR] Please enter a location name or description.'',
                  Input input_prompt,
                  Print ''Thanks for using the Weather Agent!''],
        None)"
    unfolding d0 by (simp add: iteration_def sample_lines)
  have e: "run_weather_agent seattle_world ['' exit '', ''Seattle''] =
       (banner @ [Input input_prompt, Print ''Thanks for using the Weather Agent!''], None)"
    unfolding run_weather_agent_def
    by (rule claim [THEN conjunct2, THEN conjunct2, THEN conjunct2, THEN conjunct2, THEN conjunct2,
        THEN conjunct1, THEN mp, OF strip_padded_exit])

  let ?t0 = "banner @ [Input input_prompt,
      Print (NL # ''Starting weather analysis for '' @ [APOS] @ strip '' Seattle '' @ [APOS] @ ''...''),
      Print (replicate 40 (CHR ''-'')),
      Print ''Step 1: AI Planning Phase'']"
  let ?t1 = "?t0 @ [Print (''AI is analyzing '' @ [APOS] @ ''Seattle'' @ [APOS] @ '' and generating weather API calls...''),
      Boto3Client, Converse (planner_prompt ''Seattle'')]"
  let ?pre2 = "?t1 @ [Print (''[SUCCESS] Generated Points API URL: '' @ fmt seattle_world (PStr seattle_points_url)),
      Print (NL # ''Step 2: Points API Execution''),
      Print ''Fetching location data from National Weather Service...'']"
  let ?t2 = "?pre2 @ [SubprocessRun (PStr seattle_points_url)]"
  let ?pre4 = "?t2 @ [Print ''[SUCCESS] Received points data'',
      Print (NL # ''Step 3: Extracting Forecast URL''),
      Print (''[SUCCESS] Forecast URL: '' @ fmt seattle_world (PStr seattle_forecast_url) @ ''...''),
      Print (NL # ''Step 4: Forecast API Execution''),
      Print ''Fetching weather forecast data...'']"
  let ?t3 = "?pre4 @ [SubprocessRun (PStr seattle_forecast_url)]"
  let ?pre5 = "?t3 @ [Print (''[SUCCESS] Received '' @ str_nat 31 @ '' characters of forecast data''),
      Print (NL # ''Step 5: AI Analysis Phase'')]"
  let ?t4 = "?pre5 @ [Print ''AI is processing weather data and creating summary...'',
      Boto3Client, Converse (summary_prompt forecast_doc ''Seattle'')]"
  have p: "generate_weather_api_calls seattle_world ?t0 (strip '' Seattle '') =
      (?t1, Inr (True, PList [PStr seattle_points_url]))"
    by (simp add: strip_padded_seattle planner_outcome call_claude_sonnet_with_client
        seattle_world_def and_then_def sample_facts banner_def)
  have f: "execute_curl_command seattle_world ?pre2 (PStr seattle_points_url) = (?t2, True, PStr points_doc)"
    by (simp add: execute_curl_command_def seattle_world_def)
  have g: "get_forecast_url_from_points_response seattle_world (PStr points_doc) =
      Inr (True, PStr seattle_forecast_url)"
    by (simp add: get_forecast_url_from_points_response_def seattle_world_def and_then_def)
  have s: "slice60 (PStr seattle_forecast_url) = Inr (PStr seattle_forecast_url)"
    by (simp add: take_60_seattle_forecast_url)
  have f2: "execute_curl_command seattle_world ?pre4 (PStr seattle_forecast_url) =
      (?t3, True, PStr forecast_doc)"
    by (simp add: execute_curl_command_def seattle_world_def seattle_urls_differ)
  have l: "len (PStr forecast_doc) = Inr 31"
    by (simp add: length_forecast_doc)
  have w: "process_weather_response seattle_world ?pre5 (PStr forecast_doc) (strip '' Seattle '') =
      (?t4, Inr (True, PStr ''Seattle: rain.''))"
    by (simp add: strip_padded_seattle process_weather_response_def call_claude_sonnet_with_client
        seattle_world_def and_then_def response_text_bedrock_response banner_def)
  note path = conjI [OF padded_seattle_is_a_location [THEN conjunct1]
      conjI [OF padded_seattle_is_a_location [THEN conjunct2]
      conjI [OF p conjI [OF f conjI [OF g conjI [OF s conjI [OF f2 conjI [OF l w]]]]]]]]
  note claim [THEN conjunct2, THEN conjunct2, THEN conjunct2, THEN conjunct2, THEN conjunct2,
      THEN conjunct2, THEN conjunct2, THEN mp, OF path, THEN conjunct2, THEN conjunct2, of "[''quit'']"]
  then have r: "run_weather_agent seattle_world ['' Seattle '', ''quit''] =
      run_loop seattle_world
        (?t4 @ [Print (NL # ''Step 6: Weather Forecast''),
                Print (replicate 60 (CHR ''='')),
                Print (fmt seattle_world (PStr ''Seattle: rain.'')),
                Print (replicate 60 (CHR ''='')),
                Print (NL # ''[SUCCESS] Weather analysis complete for '' @ [APOS] @ strip '' Seattle '' @ [APOS] @ ''!'')])
        [''quit'']"
    by (simp only: run_weather_agent_def)
  have h: "snd (run_weather_agent seattle_world ['' Seattle '', ''quit'']) = None
    \<and> filter network_call (fst (run_weather_agent seattle_world ['' Seattle '', ''quit''])) =
       [Boto3Client, Converse (planner_prompt ''Seattle''), SubprocessRun (PStr seattle_points_url),
        SubprocessRun (PStr seattle_forecast_url), Boto3Client,
        Converse (summary_prompt forecast_doc ''Seattle'')]"
    unfolding r by (simp add: iteration_def sample_lines banner_def)
  from a b c d e h show ?thesis
    by blast
qed

end
